theory Spec2Isabelle
  imports Main "HOL-Library.Word" "HOL-Library.AList"
begin

unbundle bit_operations_syntax

section \<open>The registration credential engine of server/index.js\<close>

text \<open>
  The theory embeds the request handlers of \<^verbatim>\<open>server/index.js\<close> that issue, sign and
  redeem QR credentials: \<^verbatim>\<open>generateQRSignature\<close>, \<^verbatim>\<open>validateQRSignature\<close>, the two
  registration endpoints, \<^verbatim>\<open>POST /api/qr/validate\<close>, unregistration and the
  administrative user deletion. A handler is a function from the database before the
  request to the database after it and the response. What the handlers draw from outside
  (the clock, read once for a request or a pass of the batch loop, the random registration
  id, and the rendered QR image, whose rendering is taken to succeed) is an argument of
  the function; the library functions whose result is not computed here (HMAC-SHA256, date
  parsing and formatting) are the fields of a \<open>platform\<close> record. Writes to the
  database succeed unless a unique index refuses them.
\<close>

subsection \<open>JavaScript values and objects\<close>

text \<open>
  The fields of a QR payload are JSON strings on the wire. A field that is absent reads
  as \<^verbatim>\<open>undefined\<close>, and JSON can carry \<^verbatim>\<open>null\<close>. Numbers, booleans, arrays and
  nested objects in a field position are not modelled.
\<close>

datatype jsval = Undefined | Null | Str string

text \<open>String conversion, as a template literal \<^verbatim>\<open>`${v}`\<close> performs it.\<close>

fun toStringJS :: "jsval \<Rightarrow> string" where
  "toStringJS Undefined = ''undefined''"
| "toStringJS Null = ''null''"
| "toStringJS (Str s) = s"

text \<open>Truthiness, as \<^verbatim>\<open>!v\<close>, \<^verbatim>\<open>v && ...\<close> and \<^verbatim>\<open>v || ...\<close> test it.\<close>

fun truthy :: "jsval \<Rightarrow> bool" where
  "truthy Undefined = False"
| "truthy Null = False"
| "truthy (Str s) = (s \<noteq> [])"

type_synonym jsobj = "(string \<times> jsval) list"

text \<open>Property read \<^verbatim>\<open>obj[k]\<close>: a missing property is \<^verbatim>\<open>undefined\<close>.\<close>

definition get_prop :: "jsobj \<Rightarrow> string \<Rightarrow> jsval" where
  "get_prop obj k = (case map_of obj k of None \<Rightarrow> Undefined | Some v \<Rightarrow> v)"

text \<open>Property write \<^verbatim>\<open>obj[k] = v\<close>: replaces the property or adds it.\<close>

definition set_prop :: "jsobj \<Rightarrow> string \<Rightarrow> jsval \<Rightarrow> jsobj" where
  "set_prop obj k v = AList.update k v obj"

subsection \<open>The platform\<close>

type_synonym byte = "8 word"

text \<open>
  \<open>hmacSha256 key data\<close> is \<^verbatim>\<open>crypto.createHmac('sha256', key).update(data).digest()\<close>;
  \<open>QR_SECRET\<close> is the constant of that name (line 20), read from the environment at
  startup; \<open>dateParse s\<close> is the time value in milliseconds of \<^verbatim>\<open>new Date(s)\<close>, \<open>None\<close>
  for an invalid date; \<open>toISOString t\<close> is \<^verbatim>\<open>new Date(t).toISOString()\<close>.
\<close>

record platform =
  hmacSha256 :: "string \<Rightarrow> string \<Rightarrow> byte list"
  QR_SECRET :: string
  dateParse :: "string \<Rightarrow> int option"
  toISOString :: "int \<Rightarrow> string"

subsection \<open>Hexadecimal buffers\<close>

definition hex_digit :: "nat \<Rightarrow> char" where
  "hex_digit n = ''0123456789abcdef'' ! n"

text \<open>\<^verbatim>\<open>digest('hex')\<close>: two lower-case digits per byte, high nibble first.\<close>

definition to_hex :: "byte list \<Rightarrow> string" where
  "to_hex bs = concat (map (\<lambda>b. [hex_digit (unat b div 16), hex_digit (unat b mod 16)]) bs)"

text \<open>Node's table of hexadecimal digits: both cases are digits.\<close>

definition unhex :: "char \<Rightarrow> nat option" where
  "unhex = map_of
     [(CHR ''0'', 0), (CHR ''1'', 1), (CHR ''2'', 2), (CHR ''3'', 3), (CHR ''4'', 4),
      (CHR ''5'', 5), (CHR ''6'', 6), (CHR ''7'', 7), (CHR ''8'', 8), (CHR ''9'', 9),
      (CHR ''a'', 10), (CHR ''b'', 11), (CHR ''c'', 12), (CHR ''d'', 13), (CHR ''e'', 14),
      (CHR ''f'', 15),
      (CHR ''A'', 10), (CHR ''B'', 11), (CHR ''C'', 12), (CHR ''D'', 13), (CHR ''E'', 14),
      (CHR ''F'', 15)]"

text \<open>
  \<^verbatim>\<open>Buffer.from(s, 'hex')\<close> on a string: one byte per pair of digits; decoding stops at
  the first pair that holds a character that is no digit, and a last unpaired character
  is dropped.
\<close>

fun from_hex :: "string \<Rightarrow> byte list" where
  "from_hex (a # b # rest) =
     (case (unhex a, unhex b) of
        (Some x, Some y) \<Rightarrow> of_nat (16 * x + y) # from_hex rest
      | _ \<Rightarrow> [])"
| "from_hex _ = []"

text \<open>
  \<^verbatim>\<open>Buffer.from(v, 'hex')\<close> on a value: \<^verbatim>\<open>undefined\<close> and \<^verbatim>\<open>null\<close> raise a
  TypeError (\<open>None\<close>).
\<close>

fun buffer_from_hex :: "jsval \<Rightarrow> byte list option" where
  "buffer_from_hex (Str s) = Some (from_hex s)"
| "buffer_from_hex _ = None"

text \<open>
  \<^verbatim>\<open>crypto.timingSafeEqual(a, b)\<close> raises a RangeError (\<open>None\<close>) when the buffers differ
  in length, and compares them otherwise.
\<close>

definition timingSafeEqual :: "byte list \<Rightarrow> byte list \<Rightarrow> bool option" where
  "timingSafeEqual a b = (if length a \<noteq> length b then None else Some (a = b))"

subsection \<open>Signing and verifying (lines 23 to 39)\<close>

definition canonical :: "jsobj \<Rightarrow> string" where
  "canonical payload =
     toStringJS (get_prop payload ''registration_id'') @ '':'' @
     toStringJS (get_prop payload ''student_id'') @ '':'' @
     toStringJS (get_prop payload ''event_id'') @ '':'' @
     toStringJS (get_prop payload ''issued_at'')"

definition generateQRSignature :: "platform \<Rightarrow> jsobj \<Rightarrow> string" where
  "generateQRSignature P payload = to_hex (hmacSha256 P (QR_SECRET P) (canonical payload))"

text \<open>The \<^verbatim>\<open>try\<close> block turns every exception into \<^verbatim>\<open>false\<close>.\<close>

definition validateQRSignature :: "platform \<Rightarrow> jsobj \<Rightarrow> bool" where
  "validateQRSignature P payload =
     (let expectedSignature = generateQRSignature P payload in
      case buffer_from_hex (get_prop payload ''signature'') of
        None \<Rightarrow> False
      | Some given \<Rightarrow>
          (case timingSafeEqual given (from_hex expectedSignature) of
             None \<Rightarrow> False
           | Some r \<Rightarrow> r))"

text \<open>
  Flipping bit \<open>i\<close> of a character, and bit \<open>n\<close> of a string counted from its first
  character, eight bits to a character, least significant first. A character is a byte:
  the digits of a signature are ASCII.
\<close>

fun flip_char_bit :: "nat \<Rightarrow> char \<Rightarrow> char" where
  "flip_char_bit i (Char b0 b1 b2 b3 b4 b5 b6 b7) =
     Char (b0 \<noteq> (i = 0)) (b1 \<noteq> (i = 1)) (b2 \<noteq> (i = 2)) (b3 \<noteq> (i = 3))
          (b4 \<noteq> (i = 4)) (b5 \<noteq> (i = 5)) (b6 \<noteq> (i = 6)) (b7 \<noteq> (i = 7))"

definition flip_bit_at :: "nat \<Rightarrow> string \<Rightarrow> string" where
  "flip_bit_at n s = s[n div 8 := flip_char_bit (n mod 8) (s ! (n div 8))]"

subsection \<open>The collections (lines 137 to 218)\<close>

text \<open>
  Documents hold the fields the handlers read or write. A \<^verbatim>\<open>Date\<close> is its time value
  in milliseconds; an event's \<open>date\<close> and \<open>registrationDeadline\<close> are \<open>None\<close> when the
  field is unset, which \<^verbatim>\<open>new Date(...)\<close> turns into an invalid date. Identifiers are
  strings that compare by equality; the cast of an identifier to an \<^verbatim>\<open>ObjectId\<close>, which
  raises on a string that is none, is not modelled.
\<close>

datatype reg_status = registered | attended | absent | cancelled

datatype scan_status = valid | invalid | expired | duplicate

record user =
  name :: string

record event =
  title :: string
  date :: "int option"
  maxParticipants :: int
  currentParticipants :: int
  registrationDeadline :: "int option"

text \<open>An element of a registration's \<^verbatim>\<open>scanLogs\<close> array.\<close>

record scan_entry =
  scannedAt :: int
  scannedBy :: string
  location :: string
  status :: scan_status
  "notes" :: string

text \<open>
  A document of the \<^verbatim>\<open>ScanLog\<close> collection: the same fields and the three references.
\<close>

record scan_log = scan_entry +
  registrationId :: string
  eventId :: "string option"
  userId :: "string option"

record registration =
  registrationId :: string
  userId :: string
  eventId :: string
  registeredAt :: int
  status :: reg_status
  qrCode :: string
  qrPayload :: jsobj
  scanLogs :: "scan_entry list"

text \<open>The body of the batch endpoint's response (lines 233 to 238).\<close>

record results =
  totalEvents :: nat
  successfulRegistrations :: nat
  failedRegistrations :: "(string \<times> string) list"
  registrations :: "registration list"

text \<open>The database: users and events by \<^verbatim>\<open>_id\<close>, the other collections in insertion order.\<close>

record db =
  users :: "string \<rightharpoonup> user"
  events :: "string \<rightharpoonup> event"
  registrations :: "registration list"
  scanlogs :: "scan_log list"

text \<open>
  A response is \<^verbatim>\<open>res.status(code).json({ error })\<close> or \<^verbatim>\<open>res.json(body)\<close>.
\<close>

datatype 'a response = Error nat string | Ok 'a

subsection \<open>Queries and writes\<close>

text \<open>\<^verbatim>\<open>Registration.findOne({ userId, eventId })\<close>: any status matches.\<close>

definition findRegistration :: "db \<Rightarrow> string \<Rightarrow> string \<Rightarrow> registration option" where
  "findRegistration d uid eid =
     find (\<lambda>r. registration.userId r = uid \<and> registration.eventId r = eid) (db.registrations d)"

text \<open>
  \<^verbatim>\<open>registration.save()\<close> of a new document raises (\<open>None\<close>) on a duplicate key of
  either unique index: \<^verbatim>\<open>registrationId\<close>, and the pair \<^verbatim>\<open>(userId, eventId)\<close>.
\<close>

definition insertRegistration :: "db \<Rightarrow> registration \<Rightarrow> db option" where
  "insertRegistration d r =
     (if \<exists>r' \<in> set (db.registrations d).
           registration.registrationId r' = registration.registrationId r \<or>
           (registration.userId r' = registration.userId r \<and>
            registration.eventId r' = registration.eventId r)
      then None
      else Some (d\<lparr>db.registrations := db.registrations d @ [r]\<rparr>))"

text \<open>
  \<^verbatim>\<open>event.currentParticipants += 1; await event.save()\<close>: the count of the document as
  it was loaded, plus one, is written back.
\<close>

definition saveIncremented :: "db \<Rightarrow> string \<Rightarrow> event \<Rightarrow> db" where
  "saveIncremented d eid loaded =
     d\<lparr>events := (events d)(eid \<mapsto> loaded\<lparr>currentParticipants := currentParticipants loaded + 1\<rparr>)\<rparr>"

text \<open>\<^verbatim>\<open>new Date() > new Date(event.registrationDeadline)\<close>: false on an invalid date.\<close>

definition deadlinePassed :: "int \<Rightarrow> event \<Rightarrow> bool" where
  "deadlinePassed now ev = (case registrationDeadline ev of None \<Rightarrow> False | Some t \<Rightarrow> now > t)"

fun replace_first :: "('a \<Rightarrow> bool) \<Rightarrow> 'a \<Rightarrow> 'a list \<Rightarrow> 'a list" where
  "replace_first p y [] = []"
| "replace_first p y (x # xs) = (if p x then y # xs else x # replace_first p y xs)"

fun delete_first :: "('a \<Rightarrow> bool) \<Rightarrow> 'a list \<Rightarrow> 'a list" where
  "delete_first p [] = []"
| "delete_first p (x # xs) = (if p x then xs else x # delete_first p xs)"

subsection \<open>Single event registration (lines 366 to 469)\<close>

text \<open>
  The object that is signed has the properties \<^verbatim>\<open>registrationId\<close>, \<^verbatim>\<open>userId\<close>,
  \<^verbatim>\<open>eventIds\<close> and \<^verbatim>\<open>timestamp\<close> (an array and a number, which no code reads and
  the model leaves out). The payload that is stored is built afterwards (lines 437 to
  446) and carries that signature.
\<close>

definition register_event ::
  "platform \<Rightarrow> int \<Rightarrow> string \<Rightarrow> string \<Rightarrow> db \<Rightarrow> string \<Rightarrow> string \<Rightarrow> db \<times> registration response" where
  "register_event P now rid qrCodeUrl d uid eid =
     (case users d uid of
        None \<Rightarrow> (d, Error 404 ''User not found'')
      | Some usr \<Rightarrow>
     (case events d eid of
        None \<Rightarrow> (d, Error 404 ''Event not found'')
      | Some ev \<Rightarrow>
     (case findRegistration d uid eid of
        Some existingRegistration \<Rightarrow> (d, Error 409 ''Already registered for this event'')
      | None \<Rightarrow>
          if currentParticipants ev \<ge> maxParticipants ev then (d, Error 400 ''Event is full'')
          else if deadlinePassed now ev
            then (d, Error 400 ''Registration deadline has passed'')
          else
            let signed = [(''registrationId'', Str rid), (''userId'', Str uid)];
                signature = generateQRSignature P signed
            in (case date ev of
                  None \<Rightarrow> (d, Error 500 ''Registration failed'')
                | Some ends \<Rightarrow>
                    let reg = \<lparr>registration.registrationId = rid,
                               registration.userId = uid,
                               registration.eventId = eid,
                               registeredAt = now,
                               registration.status = registered,
                               qrCode = qrCodeUrl,
                               qrPayload =
                                 [(''registration_id'', Str rid),
                                  (''student_id'', Str uid),
                                  (''event_id'', Str eid),
                                  (''issued_at'', Str (toISOString P now)),
                                  (''expires_at'', Str (toISOString P ends)),
                                  (''signature'', Str signature),
                                  (''event_title'', Str (title ev)),
                                  (''student_name'', Str (name usr))],
                               scanLogs = []\<rparr>
                    in (case insertRegistration d reg of
                          None \<Rightarrow> (d, Error 500 ''Registration failed'')
                        | Some d' \<Rightarrow> (saveIncremented d' eid ev, Ok reg))))))"

subsection \<open>Batch registration (lines 220 to 363)\<close>

text \<open>One pass of the loop over \<^verbatim>\<open>eventIds\<close>: the failure reason, or the registration.\<close>

definition register_one ::
  "platform \<Rightarrow> user \<Rightarrow> string \<Rightarrow> db \<Rightarrow> string \<Rightarrow> int \<Rightarrow> string \<Rightarrow> string \<Rightarrow> db \<times> (string + registration)" where
  "register_one P usr uid d eid now rid qrCodeString =
     (case findRegistration d uid eid of
        Some existingRegistration \<Rightarrow> (d, Inl ''Already registered for this event'')
      | None \<Rightarrow>
     (case events d eid of
        None \<Rightarrow> (d, Inl ''Event not found'')
      | Some ev \<Rightarrow>
          if currentParticipants ev \<ge> maxParticipants ev then (d, Inl ''Event is full'')
          else if deadlinePassed now ev then (d, Inl ''Registration deadline has passed'')
          else
            (case date ev of
               None \<Rightarrow> (d, Inl ''Registration processing failed'')
             | Some ends \<Rightarrow>
                 let unsigned =
                       [(''registration_id'', Str rid),
                        (''student_id'', Str uid),
                        (''event_id'', Str eid),
                        (''issued_at'', Str (toISOString P now)),
                        (''expires_at'', Str (toISOString P ends)),
                        (''signature'', Str []),
                        (''event_title'', Str (title ev)),
                        (''student_name'', Str (name usr))];
                     payload = set_prop unsigned ''signature'' (Str (generateQRSignature P unsigned));
                     reg = \<lparr>registration.registrationId = rid,
                            registration.userId = uid,
                            registration.eventId = eid,
                            registeredAt = now,
                            registration.status = registered,
                            qrCode = qrCodeString,
                            qrPayload = payload,
                            scanLogs = []\<rparr>
                 in (case insertRegistration d reg of
                       None \<Rightarrow> (d, Inl ''Registration processing failed'')
                     | Some d' \<Rightarrow> (saveIncremented d' eid ev, Inr reg)))))"

text \<open>
  The loop: each element of the request is an event id with what its pass draws from
  outside (the clock, the generated registration id, the rendered image).
\<close>

fun register_loop ::
  "platform \<Rightarrow> user \<Rightarrow> string \<Rightarrow> (string \<times> int \<times> string \<times> string) list \<Rightarrow> db \<times> results \<Rightarrow> db \<times> results" where
  "register_loop P usr uid [] (d, res) = (d, res)"
| "register_loop P usr uid ((eid, now, rid, img) # rest) (d, res) =
     (case register_one P usr uid d eid now rid img of
        (d', Inl reason) \<Rightarrow>
          register_loop P usr uid rest
            (d', res\<lparr>failedRegistrations := failedRegistrations res @ [(eid, reason)]\<rparr>)
      | (d', Inr reg) \<Rightarrow>
          register_loop P usr uid rest
            (d', res\<lparr>results.registrations := results.registrations res @ [reg],
                      successfulRegistrations := successfulRegistrations res + 1\<rparr>))"

definition register_multiple ::
  "platform \<Rightarrow> db \<Rightarrow> string \<Rightarrow> (string \<times> int \<times> string \<times> string) list \<Rightarrow> db \<times> results response" where
  "register_multiple P d uid eventIds =
     (if uid = [] \<or> eventIds = [] then (d, Error 400 ''Invalid request data'')
      else
        (case users d uid of
           None \<Rightarrow> (d, Error 404 ''User not found'')
         | Some usr \<Rightarrow>
             (case register_loop P usr uid eventIds
                     (d, \<lparr>totalEvents = length eventIds, successfulRegistrations = 0,
                          failedRegistrations = [], results.registrations = []\<rparr>) of
                (d', res) \<Rightarrow> (d', Ok res))))"

subsection \<open>Validation (lines 472 to 621)\<close>

text \<open>
  The response: \<^verbatim>\<open>{ valid: false, reason }\<close>, \<^verbatim>\<open>{ valid: true, registration, scanLog }\<close>,
  or the status 500 of the outer \<^verbatim>\<open>catch\<close> (whose body is \<^verbatim>\<open>valid: false\<close> with the
  reason \<^verbatim>\<open>QR validation failed\<close>). The registration that the rejection of an attended
  registration also carries is left out.
\<close>

datatype validation = Rejected string | Accepted registration scan_entry | Failure

definition requiredFields :: "string list" where
  "requiredFields = [''registration_id'', ''student_id'', ''event_id'', ''signature'']"

text \<open>\<^verbatim>\<open>fields.join(', ')\<close>\<close>

fun join :: "string list \<Rightarrow> string" where
  "join [] = []"
| "join [x] = x"
| "join (x # y # ys) = x @ '', '' @ join (y # ys)"

text \<open>
  \<^verbatim>\<open>qrPayload.expires_at && new Date() > new Date(qrPayload.expires_at)\<close>: false when
  the field is absent or empty, and when it is no date.
\<close>

definition expiredAt :: "platform \<Rightarrow> int \<Rightarrow> jsobj \<Rightarrow> bool" where
  "expiredAt P now payload =
     (truthy (get_prop payload ''expires_at'') \<and>
      (case dateParse P (toStringJS (get_prop payload ''expires_at'')) of
         None \<Rightarrow> False
       | Some t \<Rightarrow> now > t))"

text \<open>The required fields that are absent, \<^verbatim>\<open>null\<close> or empty (lines 497 and 498).\<close>

definition missingFields :: "jsobj \<Rightarrow> string list" where
  "missingFields payload = filter (\<lambda>field. \<not> truthy (get_prop payload field)) requiredFields"

text \<open>\<^verbatim>\<open>eventId && qrPayload.event_id !== eventId\<close> (line 520)\<close>

definition wrongEvent :: "jsval \<Rightarrow> jsobj \<Rightarrow> bool" where
  "wrongEvent scanEvent payload = (truthy scanEvent \<and> get_prop payload ''event_id'' \<noteq> scanEvent)"

text \<open>The query of lines 529 to 533: all three fields of the payload must match.\<close>

definition matchesPayload :: "jsobj \<Rightarrow> registration \<Rightarrow> bool" where
  "matchesPayload payload r =
     (Str (registration.registrationId r) = get_prop payload ''registration_id'' \<and>
      Str (registration.userId r) = get_prop payload ''student_id'' \<and>
      Str (registration.eventId r) = get_prop payload ''event_id'')"

text \<open>
  \<^verbatim>\<open>.populate('userId').populate('eventId')\<close> replaces a reference by its document, and
  by \<^verbatim>\<open>null\<close> when the document is gone; reading \<^verbatim>\<open>._id\<close> of \<^verbatim>\<open>null\<close> while the
  response is built raises, and the outer \<^verbatim>\<open>catch\<close> answers 500.
\<close>

definition populated :: "db \<Rightarrow> registration \<Rightarrow> bool" where
  "populated d r =
     (users d (registration.userId r) \<noteq> None \<and> events d (registration.eventId r) \<noteq> None)"

text \<open>
  \<open>qrData\<close> is the result of \<^verbatim>\<open>JSON.parse\<close>: \<open>None\<close> when the inner \<^verbatim>\<open>try\<close> block
  raises (no JSON, or the JSON \<^verbatim>\<open>null\<close>), the object otherwise (a JSON value that is no
  object has none of the fields and reads as the empty object). \<open>scanEvent\<close>, \<open>scanner\<close>
  and \<open>loc\<close> are the \<^verbatim>\<open>eventId\<close>, \<^verbatim>\<open>scannedBy\<close> and \<^verbatim>\<open>location\<close> of the request.
\<close>

definition validate ::
  "platform \<Rightarrow> int \<Rightarrow> db \<Rightarrow> jsobj option \<Rightarrow> jsval \<Rightarrow> jsval \<Rightarrow> jsval \<Rightarrow> db \<times> validation" where
  "validate P now d qrData scanEvent scanner loc =
     (case qrData of
        None \<Rightarrow> (d, Rejected ''Invalid QR code format'')
      | Some payload \<Rightarrow>
          if missingFields payload \<noteq> []
            then (d, Rejected (''Missing required QR code fields: '' @ join (missingFields payload)))
          else if \<not> validateQRSignature P payload
            then (d, Rejected ''Invalid QR code signature'')
          else if wrongEvent scanEvent payload
            then (d, Rejected ''QR code is for a different event'')
          else
            (case find (matchesPayload payload) (db.registrations d) of
               None \<Rightarrow> (d, Rejected ''Registration not found'')
             | Some reg \<Rightarrow>
                 if registration.status reg = cancelled
                   then (d, Rejected ''Registration has been cancelled'')
                 else if expiredAt P now payload
                   then (d, Rejected ''QR code has expired'')
                 else if registration.status reg = attended
                   then (if populated d reg then (d, Rejected ''Already marked as attended'')
                         else (d, Failure))
                 else
                   let scanLog = \<lparr>scannedAt = now,
                                   scannedBy = (if truthy scanner then toStringJS scanner else ''system''),
                                   location = (if truthy loc then toStringJS loc else ''unknown''),
                                   status = valid,
                                   notes = ''Valid scan - marked as attended''\<rparr>;
                       reg' = reg\<lparr>registration.status := attended,
                                    scanLogs := scanLogs reg @ [scanLog]\<rparr>;
                       d1 = d\<lparr>db.registrations :=
                                replace_first (matchesPayload payload) reg' (db.registrations d)\<rparr>;
                       standaloneScanLog =
                         scan_entry.extend scanLog
                           \<lparr>scan_log.registrationId = registration.registrationId reg,
                            scan_log.eventId =
                              (if events d (registration.eventId reg) = None then None
                               else Some (registration.eventId reg)),
                            scan_log.userId =
                              (if users d (registration.userId reg) = None then None
                               else Some (registration.userId reg))\<rparr>;
                       d2 = d1\<lparr>scanlogs := scanlogs d1 @ [standaloneScanLog]\<rparr>
                   in if populated d reg then (d2, Accepted reg' scanLog) else (d2, Failure)))"

text \<open>
  The outcome of a response in the words of the scan log's \<^verbatim>\<open>status\<close> enumeration:
  the expiry rejection is \<open>expired\<close>, the rejection of an attended registration is
  \<open>duplicate\<close>, every other rejection is \<open>invalid\<close>. The status 500 has no outcome.
\<close>

fun outcome :: "validation \<Rightarrow> scan_status option" where
  "outcome (Accepted r e) = Some valid"
| "outcome (Rejected reason) =
     (if reason = ''QR code has expired'' then Some expired
      else if reason = ''Already marked as attended'' then Some duplicate
      else Some invalid)"
| "outcome Failure = None"

subsection \<open>Unregistration (lines 673 to 694) and user deletion (lines 879 to 896)\<close>

definition unregister :: "db \<Rightarrow> string \<Rightarrow> string \<Rightarrow> db \<times> unit response" where
  "unregister d uid eid =
     (case findRegistration d uid eid of
        None \<Rightarrow> (d, Error 404 ''Registration not found.'')
      | Some reg \<Rightarrow>
          let d1 = d\<lparr>db.registrations :=
                     delete_first (\<lambda>r. registration.userId r = uid \<and> registration.eventId r = eid)
                       (db.registrations d)\<rparr>
          in (case events d1 eid of
                None \<Rightarrow> (d1, Ok ())
              | Some ev \<Rightarrow>
                  if currentParticipants ev > 0
                    then (d1\<lparr>events := (events d1)
                               (eid \<mapsto> ev\<lparr>currentParticipants := currentParticipants ev - 1\<rparr>)\<rparr>,
                          Ok ())
                  else (d1, Ok ())))"

definition delete_user :: "db \<Rightarrow> string \<Rightarrow> db \<times> unit response" where
  "delete_user d uid =
     (case users d uid of
        None \<Rightarrow> (d, Error 404 ''User not found.'')
      | Some usr \<Rightarrow>
          (d\<lparr>users := (users d)(uid := None),
             db.registrations := filter (\<lambda>r. registration.userId r \<noteq> uid) (db.registrations d)\<rparr>,
           Ok ()))"

subsection \<open>Overlapping registrations\<close>

text \<open>
  A handler runs without interruption from one \<^verbatim>\<open>await\<close> to the next; between them the
  handlers of other requests run. One pass of the batch loop (lines 241 to 356) is
  therefore a sequence of steps, one for each \<^verbatim>\<open>await\<close> with the code that follows it,
  and the state of a pass between two steps is the place it waits at with the local values
  it holds: the event document as it was loaded, and the registration it has built.
\<close>

record pass =
  p_user :: user
  p_userId :: string
  p_eventId :: string
  p_now :: int
  p_registrationId :: string
  p_qrCode :: string

datatype pass_state =
    AtFindOne
  | AtEventFind
  | AtQRCode event
  | AtRegistrationSave event registration
  | AtEventSave event registration
  | AtPopulate registration
  | Finished "string + registration"

text \<open>The registration a pass builds from the event it loaded (lines 282 to 326).\<close>

definition new_registration :: "platform \<Rightarrow> pass \<Rightarrow> event \<Rightarrow> int \<Rightarrow> registration" where
  "new_registration P p ev ends =
     (let unsigned =
            [(''registration_id'', Str (p_registrationId p)),
             (''student_id'', Str (p_userId p)),
             (''event_id'', Str (p_eventId p)),
             (''issued_at'', Str (toISOString P (p_now p))),
             (''expires_at'', Str (toISOString P ends)),
             (''signature'', Str []),
             (''event_title'', Str (title ev)),
             (''student_name'', Str (name (p_user p)))]
      in \<lparr>registration.registrationId = p_registrationId p,
          registration.userId = p_userId p,
          registration.eventId = p_eventId p,
          registeredAt = p_now p,
          registration.status = registered,
          qrCode = p_qrCode p,
          qrPayload = set_prop unsigned ''signature'' (Str (generateQRSignature P unsigned)),
          scanLogs = []\<rparr>)"

text \<open>
  One step of a pass. The event's count is read and tested at \<open>AtEventFind\<close>; the count
  that was read, plus one, is written at \<open>AtEventSave\<close>, three steps later. The last step
  reads the stored registration back with its user and event (lines 335 to 337).
\<close>

fun pass_step :: "platform \<Rightarrow> pass \<Rightarrow> db \<Rightarrow> pass_state \<Rightarrow> db \<times> pass_state" where
  "pass_step P p d AtFindOne =
     (case findRegistration d (p_userId p) (p_eventId p) of
        Some existingRegistration \<Rightarrow> (d, Finished (Inl ''Already registered for this event''))
      | None \<Rightarrow> (d, AtEventFind))"
| "pass_step P p d AtEventFind =
     (case events d (p_eventId p) of
        None \<Rightarrow> (d, Finished (Inl ''Event not found''))
      | Some ev \<Rightarrow>
          if currentParticipants ev \<ge> maxParticipants ev
            then (d, Finished (Inl ''Event is full''))
          else if deadlinePassed (p_now p) ev
            then (d, Finished (Inl ''Registration deadline has passed''))
          else if date ev = None
            then (d, Finished (Inl ''Registration processing failed''))
          else (d, AtQRCode ev))"
| "pass_step P p d (AtQRCode ev) =
     (case date ev of
        None \<Rightarrow> (d, Finished (Inl ''Registration processing failed''))
      | Some ends \<Rightarrow> (d, AtRegistrationSave ev (new_registration P p ev ends)))"
| "pass_step P p d (AtRegistrationSave ev reg) =
     (case insertRegistration d reg of
        None \<Rightarrow> (d, Finished (Inl ''Registration processing failed''))
      | Some d' \<Rightarrow> (d', AtEventSave ev reg))"
| "pass_step P p d (AtEventSave ev reg) =
     (if events d (p_eventId p) = None
        then (d, Finished (Inl ''Registration processing failed''))
      else (saveIncremented d (p_eventId p) ev, AtPopulate reg))"
| "pass_step P p d (AtPopulate reg) =
     (case find (\<lambda>r. registration.registrationId r = registration.registrationId reg)
             (db.registrations d) of
        None \<Rightarrow> (d, Finished (Inl ''Registration processing failed''))
      | Some stored \<Rightarrow>
          if populated d stored then (d, Finished (Inr stored))
          else (d, Finished (Inl ''Registration processing failed'')))"
| "pass_step P p d (Finished out) = (d, Finished out)"

text \<open>
  Several passes under a schedule: the schedule names, step by step, the pass that takes
  its next step.
\<close>

fun run_passes ::
  "platform \<Rightarrow> pass list \<Rightarrow> nat list \<Rightarrow> db \<times> pass_state list \<Rightarrow> db \<times> pass_state list" where
  "run_passes P ps [] (d, sts) = (d, sts)"
| "run_passes P ps (i # schedule) (d, sts) =
     (if i < length ps \<and> i < length sts
      then (case pass_step P (ps ! i) d (sts ! i) of
              (d', st') \<Rightarrow> run_passes P ps schedule (d', sts[i := st']))
      else run_passes P ps schedule (d, sts))"

text \<open>The passes one after another, none overlapping: each is the loop body run whole.\<close>

fun serve_in_turn :: "platform \<Rightarrow> pass list \<Rightarrow> db \<Rightarrow> db \<times> (string + registration) list" where
  "serve_in_turn P [] d = (d, [])"
| "serve_in_turn P (p # ps) d =
     (case register_one P (p_user p) (p_userId p) d (p_eventId p) (p_now p)
             (p_registrationId p) (p_qrCode p) of
        (d', out) \<Rightarrow>
          (case serve_in_turn P ps d' of (d'', outs) \<Rightarrow> (d'', out # outs)))"

subsection \<open>Overlapping scans\<close>

text \<open>
  A validation waits three times: for the query of lines 529 to 533, for
  \<^verbatim>\<open>registration.save()\<close> (line 586) and for \<^verbatim>\<open>standaloneScanLog.save()\<close> (line 599). The
  status is read and tested in the first step and written in the second. The second step
  sets the status of the stored document and pushes the scan entry onto its array; what it
  holds between the steps is the registration as it was loaded and the two references as
  \<^verbatim>\<open>populate\<close> left them.
\<close>

record scan =
  s_now :: int
  s_qrData :: "jsobj option"
  s_eventId :: jsval
  s_scannedBy :: jsval
  s_location :: jsval

datatype scan_state =
    AtLookup
  | AtStatusSave registration "string option" "string option"
  | AtScanLogSave registration "string option" "string option"
  | Answered validation

text \<open>The scan entry of lines 575 to 581.\<close>

definition scan_entry_of :: "scan \<Rightarrow> scan_entry" where
  "scan_entry_of s =
     \<lparr>scannedAt = s_now s,
      scannedBy = (if truthy (s_scannedBy s) then toStringJS (s_scannedBy s) else ''system''),
      location = (if truthy (s_location s) then toStringJS (s_location s) else ''unknown''),
      status = valid,
      notes = ''Valid scan - marked as attended''\<rparr>"

fun scan_step :: "platform \<Rightarrow> scan \<Rightarrow> db \<Rightarrow> scan_state \<Rightarrow> db \<times> scan_state" where
  "scan_step P s d AtLookup =
     (case s_qrData s of
        None \<Rightarrow> (d, Answered (Rejected ''Invalid QR code format''))
      | Some payload \<Rightarrow>
          if missingFields payload \<noteq> []
            then (d, Answered (Rejected
                   (''Missing required QR code fields: '' @ join (missingFields payload))))
          else if \<not> validateQRSignature P payload
            then (d, Answered (Rejected ''Invalid QR code signature''))
          else if wrongEvent (s_eventId s) payload
            then (d, Answered (Rejected ''QR code is for a different event''))
          else
            (case find (matchesPayload payload) (db.registrations d) of
               None \<Rightarrow> (d, Answered (Rejected ''Registration not found''))
             | Some reg \<Rightarrow>
                 if registration.status reg = cancelled
                   then (d, Answered (Rejected ''Registration has been cancelled''))
                 else if expiredAt P (s_now s) payload
                   then (d, Answered (Rejected ''QR code has expired''))
                 else if registration.status reg = attended
                   then (if populated d reg
                         then (d, Answered (Rejected ''Already marked as attended''))
                         else (d, Answered Failure))
                 else
                   (d, AtStatusSave reg
                         (if events d (registration.eventId reg) = None then None
                          else Some (registration.eventId reg))
                         (if users d (registration.userId reg) = None then None
                          else Some (registration.userId reg)))))"
| "scan_step P s d (AtStatusSave reg eventRef userRef) =
     (case s_qrData s of
        None \<Rightarrow> (d, Answered Failure)
      | Some payload \<Rightarrow>
          (case find (matchesPayload payload) (db.registrations d) of
             None \<Rightarrow> (d, Answered Failure)
           | Some stored \<Rightarrow>
               (d\<lparr>db.registrations :=
                    replace_first (matchesPayload payload)
                      (stored\<lparr>registration.status := attended,
                              scanLogs := scanLogs stored @ [scan_entry_of s]\<rparr>)
                      (db.registrations d)\<rparr>,
                AtScanLogSave reg eventRef userRef)))"
| "scan_step P s d (AtScanLogSave reg eventRef userRef) =
     (let d2 = d\<lparr>scanlogs := scanlogs d @
                 [scan_entry.extend (scan_entry_of s)
                    \<lparr>scan_log.registrationId = registration.registrationId reg,
                     scan_log.eventId = eventRef,
                     scan_log.userId = userRef\<rparr>]\<rparr>
      in if eventRef \<noteq> None \<and> userRef \<noteq> None
         then (d2, Answered (Accepted
                 (reg\<lparr>registration.status := attended,
                       scanLogs := scanLogs reg @ [scan_entry_of s]\<rparr>)
                 (scan_entry_of s)))
         else (d2, Answered Failure))"
| "scan_step P s d (Answered a) = (d, Answered a)"

text \<open>Several scans under a schedule, as for the passes above.\<close>

fun run_scans ::
  "platform \<Rightarrow> scan list \<Rightarrow> nat list \<Rightarrow> db \<times> scan_state list \<Rightarrow> db \<times> scan_state list" where
  "run_scans P ss [] (d, sts) = (d, sts)"
| "run_scans P ss (i # schedule) (d, sts) =
     (if i < length ss \<and> i < length sts
      then (case scan_step P (ss ! i) d (sts ! i) of
              (d', st') \<Rightarrow> run_scans P ss schedule (d', sts[i := st']))
      else run_scans P ss schedule (d, sts))"

subsection \<open>Event deletion (lines 996 to 1003)\<close>


subsection \<open>Sample data\<close>

text \<open>
  The examples run on the platform below: the secret is the default of line 20, and the
  three functions are tabulated at the arguments the examples reach (the digests are the
  HMAC-SHA256 values under that secret, the dates are ISO 8601 in UTC).
\<close>

definition sample_digest :: "byte list" where
  "sample_digest =
     [0xb8, 0xb9, 0x21, 0x61, 0xff, 0x59, 0x62, 0x49, 0x38, 0xc5, 0x7c, 0x5f, 0xf5, 0x59, 0x78, 0xbe,
      0xb9, 0x41, 0x21, 0xdb, 0x12, 0x29, 0x2b, 0x14, 0x94, 0x46, 0x0a, 0xfc, 0xfa, 0xa1, 0xe5, 0xd5]"

definition undefined_digest :: "byte list" where
  "undefined_digest =
     [0x18, 0xc6, 0x7a, 0xd9, 0x61, 0xd6, 0x88, 0xe5, 0x3a, 0x29, 0x46, 0x89, 0xfe, 0xea, 0x37, 0xc5,
      0x42, 0x06, 0x0c, 0xbb, 0x1b, 0xf2, 0x47, 0xce, 0x8b, 0x88, 0xc2, 0x6b, 0xd3, 0x1c, 0xac, 0xb0]"

definition second_digest :: "byte list" where
  "second_digest =
     [0x4f, 0x44, 0x63, 0x37, 0x3c, 0xf0, 0x1b, 0xdb, 0xd5, 0x48, 0xde, 0x4d, 0x25, 0xd4, 0x18, 0x71,
      0xd6, 0xe7, 0xfe, 0x74, 0x28, 0x00, 0x01, 0x31, 0xf3, 0x71, 0x94, 0xbe, 0x85, 0x74, 0xcf, 0x0c]"

definition sample_platform :: platform where
  "sample_platform =
     \<lparr>hmacSha256 = (\<lambda>key data.
        if key = ''your_secure_qr_secret_key_change_in_production'' \<and>
           data = ''0123456789abcdef0123456789abcdef:650000000000000000000001:660000000000000000000001:2025-01-01T00:00:00.000Z''
          then sample_digest
        else if key = ''your_secure_qr_secret_key_change_in_production'' \<and>
           data = ''undefined:undefined:undefined:undefined''
          then undefined_digest
        else if key = ''your_secure_qr_secret_key_change_in_production'' \<and>
           data = ''fedcba9876543210fedcba9876543210:650000000000000000000002:660000000000000000000001:2025-01-01T00:00:00.000Z''
          then second_digest
        else replicate 32 0),
      QR_SECRET = ''your_secure_qr_secret_key_change_in_production'',
      dateParse = map_of
        [(''2025-01-01T00:00:00.000Z'', 1735689600000),
         (''2025-01-15T00:00:00.000Z'', 1736899200000),
         (''2025-02-01T00:00:00.000Z'', 1738368000000)],
      toISOString = (\<lambda>t.
        if t = 1735689600000 then ''2025-01-01T00:00:00.000Z''
        else if t = 1736899200000 then ''2025-01-15T00:00:00.000Z''
        else if t = 1738368000000 then ''2025-02-01T00:00:00.000Z''
        else ''1970-01-01T00:00:00.000Z'')\<rparr>"

text \<open>Two students, and one event with a single place, open until 15 January 2025.\<close>

definition asha :: string where
  "asha = ''650000000000000000000001''"

definition ravi :: string where
  "ravi = ''650000000000000000000002''"

definition hackathon :: string where
  "hackathon = ''660000000000000000000001''"

definition sample_event :: event where
  "sample_event =
     \<lparr>title = ''Hackathon'', date = Some 1738368000000, maxParticipants = 1,
      currentParticipants = 0, registrationDeadline = Some 1736899200000\<rparr>"

definition sample_db :: db where
  "sample_db =
     \<lparr>users = [asha \<mapsto> \<lparr>name = ''Asha''\<rparr>, ravi \<mapsto> \<lparr>name = ''Ravi''\<rparr>],
      events = [hackathon \<mapsto> sample_event],
      db.registrations = [],
      scanlogs = []\<rparr>"

text \<open>
  The credential the batch endpoint issues to Asha for the event on 1 January 2025 with
  the registration id below, and her registration.
\<close>

definition sample_payload :: jsobj where
  "sample_payload =
     [(''registration_id'', Str ''0123456789abcdef0123456789abcdef''),
      (''student_id'', Str ''650000000000000000000001''),
      (''event_id'', Str ''660000000000000000000001''),
      (''issued_at'', Str ''2025-01-01T00:00:00.000Z''),
      (''expires_at'', Str ''2025-02-01T00:00:00.000Z''),
      (''signature'', Str ''b8b92161ff59624938c57c5ff55978beb94121db12292b1494460afcfaa1e5d5''),
      (''event_title'', Str ''Hackathon''),
      (''student_name'', Str ''Asha'')]"

definition sample_registration :: registration where
  "sample_registration =
     \<lparr>registration.registrationId = ''0123456789abcdef0123456789abcdef'',
      registration.userId = asha,
      registration.eventId = hackathon,
      registeredAt = 1735689600000,
      registration.status = registered,
      qrCode = ''data:image/png;base64,'',
      qrPayload = sample_payload,
      scanLogs = []\<rparr>"

text \<open>The database after that registration: the counter of the event stands at one.\<close>

definition sample_db_registered :: db where
  "sample_db_registered =
     \<lparr>users = [asha \<mapsto> \<lparr>name = ''Asha''\<rparr>, ravi \<mapsto> \<lparr>name = ''Ravi''\<rparr>],
      events = [hackathon \<mapsto> sample_event\<lparr>currentParticipants := 1\<rparr>],
      db.registrations = [sample_registration],
      scanlogs = []\<rparr>"

text \<open>The same database with that registration cancelled, and with it attended.\<close>

definition sample_db_cancelled :: db where
  "sample_db_cancelled =
     sample_db_registered
       \<lparr>db.registrations := [sample_registration\<lparr>registration.status := cancelled\<rparr>]\<rparr>"

definition sample_db_attended :: db where
  "sample_db_attended =
     sample_db_registered
       \<lparr>db.registrations := [sample_registration\<lparr>registration.status := attended\<rparr>]\<rparr>"

text \<open>
  The payload the single event endpoint stores for the same registration: its signature
  is the digest of \<^verbatim>\<open>undefined:undefined:undefined:undefined\<close>.
\<close>

definition single_payload :: jsobj where
  "single_payload =
     [(''registration_id'', Str ''0123456789abcdef0123456789abcdef''),
      (''student_id'', Str ''650000000000000000000001''),
      (''event_id'', Str ''660000000000000000000001''),
      (''issued_at'', Str ''2025-01-01T00:00:00.000Z''),
      (''expires_at'', Str ''2025-02-01T00:00:00.000Z''),
      (''signature'', Str ''18c67ad961d688e53a294689feea37c542060cbb1bf247ce8b88c26bd31cacb0''),
      (''event_title'', Str ''Hackathon''),
      (''student_name'', Str ''Asha'')]"

text \<open>The sample credential with bit 0 of its signature flipped: a forgery.\<close>

definition forged_payload :: jsobj where
  "forged_payload =
     set_prop sample_payload ''signature''
       (Str ''c8b92161ff59624938c57c5ff55978beb94121db12292b1494460afcfaa1e5d5'')"

text \<open>Midnight UTC of 1 January, 15 January, 1 February and 2 February 2025.\<close>

definition jan_1 :: int where
  "jan_1 = 1735689600000"

definition jan_15 :: int where
  "jan_15 = 1736899200000"

definition feb_1 :: int where
  "feb_1 = 1738368000000"

definition feb_2 :: int where
  "feb_2 = 1738454400000"

text \<open>
  Asha's and Ravi's passes for the event, both on 1 January, and the registration Ravi's
  pass builds.
\<close>

definition asha_pass :: pass where
  "asha_pass =
     \<lparr>p_user = \<lparr>name = ''Asha''\<rparr>, p_userId = asha, p_eventId = hackathon, p_now = jan_1,
      p_registrationId = ''0123456789abcdef0123456789abcdef'',
      p_qrCode = ''data:image/png;base64,''\<rparr>"

definition ravi_pass :: pass where
  "ravi_pass =
     \<lparr>p_user = \<lparr>name = ''Ravi''\<rparr>, p_userId = ravi, p_eventId = hackathon, p_now = jan_1,
      p_registrationId = ''fedcba9876543210fedcba9876543210'',
      p_qrCode = ''data:image/png;base64,''\<rparr>"

definition ravi_registration :: registration where
  "ravi_registration =
     \<lparr>registration.registrationId = ''fedcba9876543210fedcba9876543210'',
      registration.userId = ravi,
      registration.eventId = hackathon,
      registeredAt = 1735689600000,
      registration.status = registered,
      qrCode = ''data:image/png;base64,'',
      qrPayload =
        [(''registration_id'', Str ''fedcba9876543210fedcba9876543210''),
         (''student_id'', Str ''650000000000000000000002''),
         (''event_id'', Str ''660000000000000000000001''),
         (''issued_at'', Str ''2025-01-01T00:00:00.000Z''),
         (''expires_at'', Str ''2025-02-01T00:00:00.000Z''),
         (''signature'', Str ''4f4463373cf01bdbd548de4d25d41871d6e7fe7428000131f37194be8574cf0c''),
         (''event_title'', Str ''Hackathon''),
         (''student_name'', Str ''Ravi'')],
      scanLogs = []\<rparr>"


text \<open>
  Two scans of the sample credential on 15 January, at two gates, and the entries they
  write.
\<close>

definition gate_1_scan :: scan where
  "gate_1_scan =
     \<lparr>s_now = jan_15, s_qrData = Some sample_payload, s_eventId = Undefined,
      s_scannedBy = Str ''gate 1'', s_location = Undefined\<rparr>"

definition gate_2_scan :: scan where
  "gate_2_scan =
     \<lparr>s_now = jan_15, s_qrData = Some sample_payload, s_eventId = Undefined,
      s_scannedBy = Str ''gate 2'', s_location = Undefined\<rparr>"

definition gate_1_entry :: scan_entry where
  "gate_1_entry =
     \<lparr>scannedAt = 1736899200000, scannedBy = ''gate 1'', location = ''unknown'',
      status = valid, notes = ''Valid scan - marked as attended''\<rparr>"

definition gate_2_entry :: scan_entry where
  "gate_2_entry =
     \<lparr>scannedAt = 1736899200000, scannedBy = ''gate 2'', location = ''unknown'',
      status = valid, notes = ''Valid scan - marked as attended''\<rparr>"

section \<open>Proofs\<close>

subsection \<open>Hexadecimal buffers\<close>

lemma nat_less_16_cases:
  "(n::nat) < 16 \<Longrightarrow> n \<in> {0, 1, 2, 3, 4, 5, 6, 7, 8, 9, 10, 11, 12, 13, 14, 15}"
  by simp arith

lemma nat_less_8_cases: "(b::nat) < 8 \<Longrightarrow> b \<in> {0, 1, 2, 3, 4, 5, 6, 7}"
  by simp arith

lemma unhex_hex_digit: "n < 16 \<Longrightarrow> unhex (hex_digit n) = Some n"
  by (drule nat_less_16_cases) (auto simp: hex_digit_def unhex_def)

lemma unhex_less: "unhex c = Some v \<Longrightarrow> v < 16"
  by (auto simp: unhex_def split: if_splits)

text \<open>
  Flipping one bit of a lower-case digit gives a digit of the same value only when the
  digit is a letter and the bit is the one that tells the two cases apart.
\<close>

lemma unhex_flip_hex_digit:
  "n < 16 \<Longrightarrow> b < 8 \<Longrightarrow>
   (unhex (flip_char_bit b (hex_digit n)) = Some n) = (b = 5 \<and> hex_digit n \<in> set ''abcdef'')"
  apply (drule nat_less_16_cases)
  apply (drule nat_less_8_cases)
  apply (elim insertE emptyE)
  apply (simp_all add: hex_digit_def unhex_def)
  done

lemma byte_nibbles: "(of_nat (16 * (unat b div 16) + unat b mod 16) :: byte) = b"
  by simp

lemma nibbles_eq:
  assumes "y < 16" "y' < 16" "16 * x + y = 16 * x' + (y'::nat)"
  shows "x = x' \<and> y = y'"
proof -
  have "(16 * x + y) div 16 = x" "(16 * x' + y') div 16 = x'"
    using assms(1,2) by simp_all
  with assms(3) have "x = x'" by simp
  with assms(3) show ?thesis by simp
qed

lemma byte_of_nibbles_inj:
  assumes "x < 16" "y < 16" "x' < 16" "y' < 16"
  shows "((of_nat (16 * x + y) :: byte) = of_nat (16 * x' + y')) = (x = x' \<and> y = y')"
proof -
  have a: "16 * x + y < 2 ^ LENGTH(8)" and b: "16 * x' + y' < 2 ^ LENGTH(8)"
    using assms by simp_all
  have "((of_nat (16 * x + y) :: byte) = of_nat (16 * x' + y')) = (16 * x + y = 16 * x' + y')"
    using a b by (simp only: word_of_nat_eq_iff take_bit_nat_eq_self)
  then show ?thesis
    using nibbles_eq [OF assms(2,4)] by blast
qed

lemma unat_nibbles: "unat (b::byte) div 16 < 16" "unat (b::byte) mod 16 < 16"
proof -
  have "unat b < 2 ^ LENGTH(8)" by (rule unsigned_less)
  then show "unat b div 16 < 16" by simp
  show "unat b mod 16 < 16" by simp
qed

lemma to_hex_Cons:
  "to_hex (b # bs) = hex_digit (unat b div 16) # hex_digit (unat b mod 16) # to_hex bs"
  by (simp add: to_hex_def)

lemma to_hex_Nil: "to_hex [] = []"
  by (simp add: to_hex_def)

lemma length_to_hex: "length (to_hex bs) = 2 * length bs"
  by (induction bs) (simp_all add: to_hex_Cons to_hex_Nil)

lemma from_hex_to_hex: "from_hex (to_hex bs) = bs"
  by (induction bs) (simp_all add: to_hex_Cons to_hex_Nil unhex_hex_digit unat_nibbles byte_nibbles)

text \<open>
  Decoding a digest's hexadecimal form with one character replaced: by induction on the
  digest, with the position generalised; the replaced character is the high digit of the
  first byte, its low digit, or lies in the rest.
\<close>

lemma from_hex_flip:
  "j < 2 * length bs \<Longrightarrow> b < 8 \<Longrightarrow>
   (from_hex ((to_hex bs)[j := flip_char_bit b (to_hex bs ! j)]) = bs)
   = (b = 5 \<and> to_hex bs ! j \<in> set ''abcdef'')"
proof (induction bs arbitrary: j)
  case Nil
  then show ?case by simp
next
  case (Cons x xs)
  let ?hi = "unat x div 16" and ?lo = "unat x mod 16"
  have hi: "?hi < 16" and lo: "?lo < 16" by (rule unat_nibbles)+
  have x: "x = of_nat (16 * ?hi + ?lo)" by (simp only: byte_nibbles)
  consider "j = 0" | "j = 1" | "2 \<le> j" by linarith
  then show ?case
  proof cases
    case 1
    show ?thesis
    proof (cases "unhex (flip_char_bit b (hex_digit ?hi))")
      case None
      with 1 Cons.prems hi show ?thesis
        using unhex_flip_hex_digit [of ?hi b]
        by (simp add: to_hex_Cons)
    next
      case (Some v)
      then have v: "v < 16" by (rule unhex_less)
      have "((of_nat (16 * v + ?lo) :: byte) = x) = (v = ?hi)"
        using byte_of_nibbles_inj [OF v lo hi lo] x by metis
      with 1 Some Cons.prems hi lo show ?thesis
        using unhex_flip_hex_digit [of ?hi b]
        by (simp add: to_hex_Cons unhex_hex_digit from_hex_to_hex)
    qed
  next
    case 2
    show ?thesis
    proof (cases "unhex (flip_char_bit b (hex_digit ?lo))")
      case None
      with 2 Cons.prems lo show ?thesis
        using unhex_flip_hex_digit [of ?lo b]
        by (simp add: to_hex_Cons unhex_hex_digit hi)
    next
      case (Some v)
      then have v: "v < 16" by (rule unhex_less)
      have "((of_nat (16 * ?hi + v) :: byte) = x) = (v = ?lo)"
        using byte_of_nibbles_inj [OF hi v hi lo] x by metis
      with 2 Some Cons.prems hi lo show ?thesis
        using unhex_flip_hex_digit [of ?lo b]
        by (simp add: to_hex_Cons unhex_hex_digit from_hex_to_hex)
    qed
  next
    case 3
    then obtain k where k: "j = Suc (Suc k)"
      by (metis Suc_le_D numeral_2_eq_2 Suc_le_mono)
    with Cons.prems have "k < 2 * length xs" by simp
    from Cons.IH [OF this Cons.prems(2)] k hi lo show ?thesis
      by (simp add: to_hex_Cons unhex_hex_digit byte_nibbles)
  qed
qed

subsection \<open>Signing and verifying\<close>

lemma get_set_prop:
  "get_prop (set_prop obj k v) k' = (if k' = k then v else get_prop obj k')"
  by (simp add: get_prop_def set_prop_def update_conv')

lemma canonical_set_signature: "canonical (set_prop payload ''signature'' v) = canonical payload"
  by (simp add: canonical_def get_set_prop)

lemma generate_set_signature:
  "generateQRSignature P (set_prop payload ''signature'' v) = generateQRSignature P payload"
  by (simp add: generateQRSignature_def canonical_set_signature)

text \<open>
  Verification succeeds exactly when the signature property is a string that decodes to
  the digest of the payload's canonical string.
\<close>

lemma validateQRSignature_iff:
  "validateQRSignature P payload =
     (\<exists>s. get_prop payload ''signature'' = Str s \<and>
          from_hex s = hmacSha256 P (QR_SECRET P) (canonical payload))"
  by (cases "get_prop payload ''signature''")
    (auto simp: validateQRSignature_def generateQRSignature_def timingSafeEqual_def
      from_hex_to_hex Let_def)

lemma validate_signed:
  "validateQRSignature P (set_prop payload ''signature'' (Str (generateQRSignature P payload)))"
  by (simp add: validateQRSignature_iff get_set_prop canonical_set_signature
      generateQRSignature_def from_hex_to_hex)

lemma validate_flipped:
  assumes "n < 8 * length (generateQRSignature P payload)"
  shows "validateQRSignature P
           (set_prop payload ''signature'' (Str (flip_bit_at n (generateQRSignature P payload))))
         = (n mod 8 = 5 \<and> generateQRSignature P payload ! (n div 8) \<in> set ''abcdef'')"
proof -
  let ?bs = "hmacSha256 P (QR_SECRET P) (canonical payload)"
  have j: "n div 8 < 2 * length ?bs"
    using assms by (simp add: generateQRSignature_def length_to_hex)
  have b: "n mod 8 < 8" by simp
  show ?thesis
    using from_hex_flip [OF j b]
    by (simp add: validateQRSignature_iff get_set_prop canonical_set_signature
        generateQRSignature_def flip_bit_at_def)
qed

text \<open>
  C1 (amended). A payload that carries the signature \<^verbatim>\<open>generateQRSignature\<close> computes
  for it passes \<^verbatim>\<open>validateQRSignature\<close>. Flipping one bit of the signature string makes
  verification fail, except for bit 5 of a letter digit \<open>a\<close> to \<open>f\<close>: that flip only
  changes the letter's case, the decoded bytes are the same, and verification still
  succeeds.
\<close>

theorem signature_accepted_and_bit_flips:
  "validateQRSignature P (set_prop payload ''signature'' (Str (generateQRSignature P payload))) \<and>
   (\<forall>n < 8 * length (generateQRSignature P payload).
      validateQRSignature P
        (set_prop payload ''signature'' (Str (flip_bit_at n (generateQRSignature P payload))))
      = (n mod 8 = 5 \<and> generateQRSignature P payload ! (n div 8) \<in> set ''abcdef''))"
  using validate_signed validate_flipped by blast

lemma sample_canonical:
  "canonical sample_payload =
     ''0123456789abcdef0123456789abcdef:650000000000000000000001:660000000000000000000001:2025-01-01T00:00:00.000Z''"
  by (simp add: canonical_def sample_payload_def get_prop_def)

lemma sample_signature:
  "generateQRSignature sample_platform sample_payload =
     ''b8b92161ff59624938c57c5ff55978beb94121db12292b1494460afcfaa1e5d5''"
  by (simp add: generateQRSignature_def sample_canonical sample_platform_def sample_digest_def
      to_hex_def hex_digit_def)

lemma sample_payload_signed:
  "set_prop sample_payload ''signature''
     (Str ''b8b92161ff59624938c57c5ff55978beb94121db12292b1494460afcfaa1e5d5'') = sample_payload"
  by (simp add: set_prop_def sample_payload_def)

lemma sample_payload_valid: "validateQRSignature sample_platform sample_payload"
  using validate_signed [of sample_platform sample_payload]
  by (simp add: sample_signature sample_payload_signed)

lemma forged_payload_invalid: "\<not> validateQRSignature sample_platform forged_payload"
  using validate_flipped [of 0 sample_platform sample_payload]
  by (simp add: sample_signature forged_payload_def flip_bit_at_def)

text \<open>
  Witness for C1: the sample credential verifies, and with bit 0 of its signature flipped
  (\<open>b\<close> becomes \<open>c\<close>) it does not.
\<close>

theorem signature_accepted_and_bit_flips_witness:
  "validateQRSignature sample_platform sample_payload \<and>
   \<not> validateQRSignature sample_platform
       (set_prop sample_payload ''signature''
          (Str ''c8b92161ff59624938c57c5ff55978beb94121db12292b1494460afcfaa1e5d5''))"
proof -
  have f: "flip_bit_at 0 ''b8b92161ff59624938c57c5ff55978beb94121db12292b1494460afcfaa1e5d5''
      = ''c8b92161ff59624938c57c5ff55978beb94121db12292b1494460afcfaa1e5d5''"
    by (simp add: flip_bit_at_def)
  have a: "validateQRSignature sample_platform sample_payload"
    using signature_accepted_and_bit_flips [of sample_platform sample_payload, THEN conjunct1]
    by (simp add: sample_signature sample_payload_signed)
  have b: "\<not> validateQRSignature sample_platform
       (set_prop sample_payload ''signature''
          (Str (flip_bit_at 0 (generateQRSignature sample_platform sample_payload))))"
    using signature_accepted_and_bit_flips
      [of sample_platform sample_payload, THEN conjunct2, rule_format, of 0]
    by (simp add: sample_signature)
  from a b show ?thesis by (simp add: sample_signature f)
qed

text \<open>
  Counterexample to C1 as stated: with bit 5 of the first character of its signature
  flipped (\<open>b\<close> becomes \<open>B\<close>), the sample credential still verifies.
\<close>

theorem flipped_signature_accepted:
  "generateQRSignature sample_platform sample_payload =
     ''b8b92161ff59624938c57c5ff55978beb94121db12292b1494460afcfaa1e5d5'' \<and>
   flip_bit_at 5 ''b8b92161ff59624938c57c5ff55978beb94121db12292b1494460afcfaa1e5d5'' =
     ''B8b92161ff59624938c57c5ff55978beb94121db12292b1494460afcfaa1e5d5'' \<and>
   validateQRSignature sample_platform
     (set_prop sample_payload ''signature''
        (Str ''B8b92161ff59624938c57c5ff55978beb94121db12292b1494460afcfaa1e5d5''))"
proof -
  have f: "flip_bit_at 5 ''b8b92161ff59624938c57c5ff55978beb94121db12292b1494460afcfaa1e5d5'' =
     ''B8b92161ff59624938c57c5ff55978beb94121db12292b1494460afcfaa1e5d5''"
    by (simp add: flip_bit_at_def)
  have "validateQRSignature sample_platform
     (set_prop sample_payload ''signature''
        (Str (flip_bit_at 5 (generateQRSignature sample_platform sample_payload))))"
    using validate_flipped [of 5 sample_platform sample_payload]
    by (simp add: sample_signature)
  then show ?thesis by (simp add: sample_signature f)
qed

subsection \<open>Validation\<close>

lemmas sample_defs =
  sample_platform_def sample_db_def sample_db_registered_def sample_event_def
  sample_registration_def sample_payload_def asha_def ravi_def hackathon_def
  jan_1_def jan_15_def feb_1_def feb_2_def

lemma validate_None:
  "validate P now d None scanEvent scanner loc = (d, Rejected ''Invalid QR code format'')"
  by (simp add: validate_def)


lemma sample_missingFields: "missingFields sample_payload = []"
  by (simp add: missingFields_def requiredFields_def get_prop_def sample_payload_def)

lemma get_prop_forged:
  "get_prop forged_payload k =
     (if k = ''signature''
      then Str ''c8b92161ff59624938c57c5ff55978beb94121db12292b1494460afcfaa1e5d5''
      else get_prop sample_payload k)"
  by (simp add: forged_payload_def get_set_prop)

lemma forged_missingFields: "missingFields forged_payload = []"
  by (simp add: missingFields_def requiredFields_def get_prop_forged)
    (simp add: get_prop_def sample_payload_def)

lemma sample_find:
  "find (matchesPayload sample_payload) (db.registrations sample_db_registered)
   = Some sample_registration"
  by (simp add: matchesPayload_def get_prop_def sample_defs)

lemma sample_populated: "populated sample_db_registered sample_registration"
  by (simp add: populated_def sample_defs)

lemma sample_expired_feb_2: "expiredAt sample_platform feb_2 sample_payload"
  by (simp add: expiredAt_def get_prop_def sample_defs)

lemma forged_expired_feb_2: "expiredAt sample_platform feb_2 forged_payload"
  using sample_expired_feb_2 by (simp add: expiredAt_def get_prop_forged)

lemma sample_fresh_jan_15: "\<not> expiredAt sample_platform jan_15 sample_payload"
  by (simp add: expiredAt_def get_prop_def sample_defs)

lemma not_wrongEvent_Undefined: "\<not> wrongEvent Undefined payload"
  by (simp add: wrongEvent_def)

lemma sample_validate_feb_2:
  "validate sample_platform feb_2 sample_db_registered (Some sample_payload)
     Undefined Undefined Undefined
   = (sample_db_registered, Rejected ''QR code has expired'')"
  by (simp add: validate_def sample_missingFields sample_payload_valid not_wrongEvent_Undefined
      sample_find sample_expired_feb_2 sample_registration_def)

lemma forged_validate_feb_2:
  "validate sample_platform feb_2 sample_db_registered (Some forged_payload)
     Undefined Undefined Undefined
   = (sample_db_registered, Rejected ''Invalid QR code signature'')"
  by (simp add: validate_def forged_missingFields forged_payload_invalid)

text \<open>
  C5 (amended). A validation appends one document to the scan log collection, with
  status \<open>valid\<close>, when it answers \<^verbatim>\<open>valid: true\<close>; when it answers with a rejection
  the scan log collection is the one before the call, so a rejected scan is not audited.
\<close>

theorem scan_logged_only_when_valid:
  assumes "validate P now d qrData scanEvent scanner loc = (d', resp)"
  shows "((\<exists>r e. resp = Accepted r e) \<longrightarrow>
            (\<exists>l. scanlogs d' = scanlogs d @ [l] \<and> scan_entry.status l = valid)) \<and>
         ((\<exists>reason. resp = Rejected reason) \<longrightarrow> scanlogs d' = scanlogs d)"
  using assms
  by (auto simp: validate_def Let_def scan_entry.defs split: option.splits if_splits)

text \<open>
  C7 (amended). A payload whose \<^verbatim>\<open>expires_at\<close> is present and earlier than the
  current time is never answered \<^verbatim>\<open>valid: true\<close>. It is answered with the expiry rejection
  exactly when the checks that come first pass: the required fields are present, the
  signature verifies, the scanner's event (if given) is the payload's, and the registration
  is found and not cancelled. The status \<open>attended\<close> does not matter.
\<close>

theorem expired_never_valid:
  assumes "expiredAt P now payload"
  shows "(\<forall>r e. snd (validate P now d (Some payload) scanEvent scanner loc) \<noteq> Accepted r e) \<and>
         (snd (validate P now d (Some payload) scanEvent scanner loc) = Rejected ''QR code has expired'')
         = (missingFields payload = [] \<and> validateQRSignature P payload \<and>
            \<not> wrongEvent scanEvent payload \<and>
            (\<exists>reg. find (matchesPayload payload) (db.registrations d) = Some reg \<and>
                   registration.status reg \<noteq> cancelled))"
  using assms
  by (auto simp: validate_def Let_def split: option.splits if_splits)


lemma find_replace_first:
  "find p xs = Some x \<Longrightarrow> p y \<Longrightarrow> find p (replace_first p y xs) = Some y"
  by (induction xs) (auto split: if_splits)

lemma matchesPayload_update:
  "matchesPayload payload (r\<lparr>registration.status := s, scanLogs := l\<rparr>) = matchesPayload payload r"
  by (simp add: matchesPayload_def)

lemma find_Some_holds: "find p xs = Some x \<Longrightarrow> p x"
  by (induction xs) (auto split: if_splits)

text \<open>The first scan of a registration that is neither cancelled nor attended.\<close>

lemma validate_commit:
  assumes "missingFields payload = []" "validateQRSignature P payload"
    "\<not> wrongEvent scanEvent payload"
    "find (matchesPayload payload) (db.registrations d) = Some reg"
    "registration.status reg \<noteq> cancelled" "registration.status reg \<noteq> attended"
    "\<not> expiredAt P now payload" "populated d reg"
  shows "\<exists>entry l.
     validate P now d (Some payload) scanEvent scanner loc =
       (d\<lparr>db.registrations :=
            replace_first (matchesPayload payload)
              (reg\<lparr>registration.status := attended, scanLogs := scanLogs reg @ [entry]\<rparr>)
              (db.registrations d),
          scanlogs := scanlogs d @ [l]\<rparr>,
        Accepted (reg\<lparr>registration.status := attended, scanLogs := scanLogs reg @ [entry]\<rparr>) entry)"
  using assms by (simp add: validate_def Let_def del: ex_simps) blast

text \<open>A later scan of a registration that is attended.\<close>

lemma validate_attended:
  assumes "find (matchesPayload payload) (db.registrations d) = Some reg"
    "registration.status reg = attended" "populated d reg"
  shows "fst (validate P now d (Some payload) scanEvent scanner loc) = d \<and>
     (\<forall>r e. snd (validate P now d (Some payload) scanEvent scanner loc) \<noteq> Accepted r e) \<and>
     (missingFields payload = [] \<and> validateQRSignature P payload \<and>
      \<not> wrongEvent scanEvent payload \<and> \<not> expiredAt P now payload \<longrightarrow>
      snd (validate P now d (Some payload) scanEvent scanner loc)
        = Rejected ''Already marked as attended'')"
  using assms by (simp add: validate_def Let_def)

text \<open>
  Witness for C5: the sample credential scanned on 15 January is accepted and one
  \<open>valid\<close> document is appended; scanned on 2 February it is rejected and none is.
\<close>

theorem scan_logged_only_when_valid_witness:
  "(\<exists>l. scanlogs (fst (validate sample_platform jan_15 sample_db_registered (Some sample_payload)
            Undefined Undefined Undefined)) = scanlogs sample_db_registered @ [l] \<and>
        scan_entry.status l = valid) \<and>
   scanlogs (fst (validate sample_platform feb_2 sample_db_registered (Some sample_payload)
            Undefined Undefined Undefined)) = scanlogs sample_db_registered"
proof -
  let ?a = "validate sample_platform jan_15 sample_db_registered (Some sample_payload)
            Undefined Undefined Undefined"
  let ?b = "validate sample_platform feb_2 sample_db_registered (Some sample_payload)
            Undefined Undefined Undefined"
  have "registration.status sample_registration \<noteq> cancelled"
    "registration.status sample_registration \<noteq> attended"
    by (simp_all add: sample_registration_def)
  from validate_commit [OF sample_missingFields sample_payload_valid not_wrongEvent_Undefined
      sample_find this sample_fresh_jan_15 sample_populated, of Undefined Undefined]
  have a: "\<exists>r e. snd ?a = Accepted r e" by auto
  have b: "\<exists>reason. snd ?b = Rejected reason"
    by (simp add: sample_validate_feb_2)
  have "?a = (fst ?a, snd ?a)" "?b = (fst ?b, snd ?b)" by simp_all
  from scan_logged_only_when_valid [OF this(1)] scan_logged_only_when_valid [OF this(2)] a b
  show ?thesis by blast
qed

text \<open>
  Counterexample to C5 as stated: the scan of 2 February has the outcome \<open>expired\<close>
  and the scan log collection, empty before, is still empty.
\<close>

theorem expired_scan_not_logged:
  "outcome (snd (validate sample_platform feb_2 sample_db_registered (Some sample_payload)
                   Undefined Undefined Undefined)) = Some expired \<and>
   scanlogs sample_db_registered = [] \<and>
   scanlogs (fst (validate sample_platform feb_2 sample_db_registered (Some sample_payload)
                   Undefined Undefined Undefined)) = []"
  by (simp add: sample_validate_feb_2) (simp add: sample_db_registered_def)

text \<open>
  Witness for C7: the sample credential on 2 February.
\<close>

theorem expired_never_valid_witness:
  "expiredAt sample_platform feb_2 sample_payload \<and>
   snd (validate sample_platform feb_2 sample_db_registered (Some sample_payload)
          Undefined Undefined Undefined) = Rejected ''QR code has expired''"
proof -
  have "registration.status sample_registration \<noteq> cancelled"
    by (simp add: sample_registration_def)
  with expired_never_valid [OF sample_expired_feb_2, of sample_db_registered Undefined Undefined Undefined]
    sample_missingFields sample_payload_valid not_wrongEvent_Undefined sample_find
    sample_expired_feb_2
  show ?thesis by blast
qed

text \<open>
  Counterexample to C7 as stated: an expired payload with a wrong signature is
  rejected for its signature (outcome \<open>invalid\<close>), not as expired.
\<close>

theorem expired_forgery_invalid:
  "expiredAt sample_platform feb_2 forged_payload \<and>
   validate sample_platform feb_2 sample_db_registered (Some forged_payload)
     Undefined Undefined Undefined
     = (sample_db_registered, Rejected ''Invalid QR code signature'') \<and>
   outcome (Rejected ''Invalid QR code signature'') = Some invalid"
  by (simp add: forged_expired_feb_2 forged_validate_feb_2)

subsection \<open>Issuance\<close>

lemma findRegistration_None_iff:
  "(findRegistration d uid eid = None) =
     (\<not> (\<exists>r \<in> set (db.registrations d). registration.userId r = uid \<and> registration.eventId r = eid))"
  by (auto simp: findRegistration_def find_None_iff)

text \<open>What a successful pass of the batch loop stores.\<close>

lemma register_one_success:
  assumes "register_one P usr uid d eid now rid img = (d', Inr reg)"
  shows "\<exists>ev ends.
     events d eid = Some ev \<and> date ev = Some ends \<and>
     findRegistration d uid eid = None \<and>
     currentParticipants ev < maxParticipants ev \<and> \<not> deadlinePassed now ev \<and>
     registration.registrationId reg = rid \<and> registration.userId reg = uid \<and>
     registration.eventId reg = eid \<and> registration.status reg = registered \<and>
     scanLogs reg = [] \<and>
     qrPayload reg = set_prop
              [(''registration_id'', Str rid), (''student_id'', Str uid), (''event_id'', Str eid),
               (''issued_at'', Str (toISOString P now)), (''expires_at'', Str (toISOString P ends)),
               (''signature'', Str []), (''event_title'', Str (title ev)),
               (''student_name'', Str (name usr))]
              ''signature''
              (Str (generateQRSignature P
                [(''registration_id'', Str rid), (''student_id'', Str uid), (''event_id'', Str eid),
                 (''issued_at'', Str (toISOString P now)), (''expires_at'', Str (toISOString P ends)),
                 (''signature'', Str []), (''event_title'', Str (title ev)),
                 (''student_name'', Str (name usr))])) \<and>
     d' = d\<lparr>events := (events d)(eid \<mapsto> ev\<lparr>currentParticipants := currentParticipants ev + 1\<rparr>),
            db.registrations := db.registrations d @ [reg]\<rparr>"
  using assms
  by (auto simp: register_one_def Let_def insertRegistration_def saveIncremented_def
      split: option.splits if_splits)

lemma register_event_success:
  assumes "register_event P now rid img d uid eid = (d', Ok reg)"
  shows "\<exists>usr ev ends.
     users d uid = Some usr \<and> events d eid = Some ev \<and> date ev = Some ends \<and>
     findRegistration d uid eid = None \<and>
     currentParticipants ev < maxParticipants ev \<and> \<not> deadlinePassed now ev \<and>
     registration.registrationId reg = rid \<and> registration.userId reg = uid \<and>
     registration.eventId reg = eid \<and> registration.status reg = registered \<and>
     scanLogs reg = [] \<and>
     qrPayload reg =
              [(''registration_id'', Str rid), (''student_id'', Str uid), (''event_id'', Str eid),
               (''issued_at'', Str (toISOString P now)), (''expires_at'', Str (toISOString P ends)),
               (''signature'', Str (generateQRSignature P
                   [(''registrationId'', Str rid), (''userId'', Str uid)])),
               (''event_title'', Str (title ev)), (''student_name'', Str (name usr))] \<and>
     d' = d\<lparr>events := (events d)(eid \<mapsto> ev\<lparr>currentParticipants := currentParticipants ev + 1\<rparr>),
            db.registrations := db.registrations d @ [reg]\<rparr>"
  using assms
  by (auto simp: register_event_def Let_def insertRegistration_def saveIncremented_def
      split: option.splits if_splits)

text \<open>The batch path signs the payload it stores.\<close>

lemma batch_payload_signed:
  assumes "register_one P usr uid d eid now rid img = (d', Inr reg)"
  shows "get_prop (qrPayload reg) ''issued_at'' = Str (toISOString P now) \<and>
     (\<exists>ev ends. events d eid = Some ev \<and> date ev = Some ends \<and>
        get_prop (qrPayload reg) ''expires_at'' = Str (toISOString P ends)) \<and>
     get_prop (qrPayload reg) ''signature'' = Str (generateQRSignature P (qrPayload reg)) \<and>
     validateQRSignature P (qrPayload reg)"
proof -
  from register_one_success [OF assms] obtain ev ends where
    ev: "events d eid = Some ev" "date ev = Some ends" and
    p: "qrPayload reg = set_prop
              [(''registration_id'', Str rid), (''student_id'', Str uid), (''event_id'', Str eid),
               (''issued_at'', Str (toISOString P now)), (''expires_at'', Str (toISOString P ends)),
               (''signature'', Str []), (''event_title'', Str (title ev)),
               (''student_name'', Str (name usr))]
              ''signature''
              (Str (generateQRSignature P
                [(''registration_id'', Str rid), (''student_id'', Str uid), (''event_id'', Str eid),
                 (''issued_at'', Str (toISOString P now)), (''expires_at'', Str (toISOString P ends)),
                 (''signature'', Str []), (''event_title'', Str (title ev)),
                 (''student_name'', Str (name usr))]))"
    by blast
  have a: "get_prop (qrPayload reg) ''issued_at'' = Str (toISOString P now)"
    and b: "get_prop (qrPayload reg) ''expires_at'' = Str (toISOString P ends)"
    by (simp_all add: p get_set_prop) (simp_all add: get_prop_def)
  have c: "get_prop (qrPayload reg) ''signature'' = Str (generateQRSignature P (qrPayload reg))"
    by (simp add: p get_set_prop generate_set_signature)
  have "validateQRSignature P (qrPayload reg)"
    unfolding p by (rule validate_signed)
  with a b c ev show ?thesis by blast
qed

text \<open>
  The single event path stores the digest of \<^verbatim>\<open>undefined:undefined:undefined:undefined\<close>:
  the object it signs has none of the four properties the signature is computed from.
\<close>

lemma single_payload_signature:
  assumes "register_event P now rid img d uid eid = (d', Ok reg)"
  shows "get_prop (qrPayload reg) ''issued_at'' = Str (toISOString P now) \<and>
     (\<exists>ev ends. events d eid = Some ev \<and> date ev = Some ends \<and>
        get_prop (qrPayload reg) ''expires_at'' = Str (toISOString P ends)) \<and>
     get_prop (qrPayload reg) ''signature'' =
       Str (to_hex (hmacSha256 P (QR_SECRET P) ''undefined:undefined:undefined:undefined'')) \<and>
     validateQRSignature P (qrPayload reg) =
       (hmacSha256 P (QR_SECRET P) ''undefined:undefined:undefined:undefined'' =
        hmacSha256 P (QR_SECRET P)
          (rid @ '':'' @ uid @ '':'' @ eid @ '':'' @ toISOString P now))"
proof -
  from register_event_success [OF assms] obtain usr ev ends where
    "users d uid = Some usr" and
    ev: "events d eid = Some ev" "date ev = Some ends" and
    p: "qrPayload reg =
              [(''registration_id'', Str rid), (''student_id'', Str uid), (''event_id'', Str eid),
               (''issued_at'', Str (toISOString P now)), (''expires_at'', Str (toISOString P ends)),
               (''signature'', Str (generateQRSignature P
                   [(''registrationId'', Str rid), (''userId'', Str uid)])),
               (''event_title'', Str (title ev)), (''student_name'', Str (name usr))]"
    by blast
  have u: "generateQRSignature P [(''registrationId'', Str rid), (''userId'', Str uid)] =
      to_hex (hmacSha256 P (QR_SECRET P) ''undefined:undefined:undefined:undefined'')"
    by (simp add: generateQRSignature_def canonical_def get_prop_def)
  have c: "canonical (qrPayload reg) = rid @ '':'' @ uid @ '':'' @ eid @ '':'' @ toISOString P now"
    by (simp add: p canonical_def get_prop_def)
  have a: "get_prop (qrPayload reg) ''issued_at'' = Str (toISOString P now)"
    and b: "get_prop (qrPayload reg) ''expires_at'' = Str (toISOString P ends)"
    and s: "get_prop (qrPayload reg) ''signature'' =
       Str (to_hex (hmacSha256 P (QR_SECRET P) ''undefined:undefined:undefined:undefined''))"
    by (simp_all add: p u get_prop_def)
  have "validateQRSignature P (qrPayload reg) =
       (hmacSha256 P (QR_SECRET P) ''undefined:undefined:undefined:undefined'' =
        hmacSha256 P (QR_SECRET P) (rid @ '':'' @ uid @ '':'' @ eid @ '':'' @ toISOString P now))"
    by (simp add: validateQRSignature_iff s from_hex_to_hex c)
  with a b s ev show ?thesis by blast
qed

subsection \<open>The handlers on the sample data\<close>

lemma single_canonical:
  "canonical single_payload =
     ''0123456789abcdef0123456789abcdef:650000000000000000000001:660000000000000000000001:2025-01-01T00:00:00.000Z''"
  by (simp add: canonical_def single_payload_def get_prop_def)

lemma single_payload_invalid: "\<not> validateQRSignature sample_platform single_payload"
proof -
  have "get_prop single_payload ''signature'' =
      Str ''18c67ad961d688e53a294689feea37c542060cbb1bf247ce8b88c26bd31cacb0''"
    by (simp add: single_payload_def get_prop_def)
  moreover have "from_hex ''18c67ad961d688e53a294689feea37c542060cbb1bf247ce8b88c26bd31cacb0''
      = undefined_digest"
    by (simp add: unhex_def undefined_digest_def)
  moreover have "hmacSha256 sample_platform (QR_SECRET sample_platform) (canonical single_payload)
      = sample_digest"
    by (simp add: single_canonical sample_platform_def)
  moreover have "undefined_digest \<noteq> sample_digest"
    by (simp add: undefined_digest_def sample_digest_def)
  ultimately show ?thesis
    by (simp add: validateQRSignature_iff)
qed

lemma undefined_signature:
  "generateQRSignature sample_platform
     [(''registrationId'', Str ''0123456789abcdef0123456789abcdef''),
      (''userId'', Str ''650000000000000000000001'')]
   = ''18c67ad961d688e53a294689feea37c542060cbb1bf247ce8b88c26bd31cacb0''"
  by (simp add: generateQRSignature_def canonical_def get_prop_def sample_platform_def
      undefined_digest_def to_hex_def hex_digit_def)

lemma sample_register_event:
  "register_event sample_platform jan_1 ''0123456789abcdef0123456789abcdef''
     ''data:image/png;base64,'' sample_db asha hackathon
   = (sample_db_registered
        \<lparr>db.registrations := [sample_registration\<lparr>qrPayload := single_payload\<rparr>]\<rparr>,
      Ok (sample_registration\<lparr>qrPayload := single_payload\<rparr>))"
  apply (simp add: register_event_def sample_db_def asha_def ravi_def hackathon_def
      findRegistration_def sample_event_def deadlinePassed_def jan_1_def Let_def
      undefined_signature insertRegistration_def saveIncremented_def)
  apply (simp add: sample_platform_def sample_db_registered_def sample_registration_def
      single_payload_def asha_def ravi_def hackathon_def sample_event_def sample_payload_def)
  done


lemma batch_signature:
  "generateQRSignature sample_platform
     [(''registration_id'', Str ''0123456789abcdef0123456789abcdef''),
      (''student_id'', Str ''650000000000000000000001''),
      (''event_id'', Str ''660000000000000000000001''),
      (''issued_at'', Str ''2025-01-01T00:00:00.000Z''),
      (''expires_at'', Str ''2025-02-01T00:00:00.000Z''),
      (''signature'', Str []),
      (''event_title'', Str ''Hackathon''),
      (''student_name'', Str ''Asha'')]
   = ''b8b92161ff59624938c57c5ff55978beb94121db12292b1494460afcfaa1e5d5''"
  by (simp add: generateQRSignature_def canonical_def get_prop_def sample_platform_def
      sample_digest_def to_hex_def hex_digit_def)

lemma sample_toISOString:
  "toISOString sample_platform 1735689600000 = ''2025-01-01T00:00:00.000Z''"
  "toISOString sample_platform 1738368000000 = ''2025-02-01T00:00:00.000Z''"
  by (simp_all add: sample_platform_def)

lemma sample_register_one:
  "register_one sample_platform \<lparr>name = ''Asha''\<rparr> asha sample_db hackathon jan_1
     ''0123456789abcdef0123456789abcdef'' ''data:image/png;base64,''
   = (sample_db_registered, Inr sample_registration)"
  apply (simp add: register_one_def sample_db_def asha_def ravi_def hackathon_def
      findRegistration_def sample_event_def deadlinePassed_def jan_1_def Let_def
      sample_toISOString batch_signature insertRegistration_def saveIncremented_def set_prop_def)
  apply (simp add: sample_db_registered_def sample_registration_def
      asha_def ravi_def hackathon_def sample_event_def sample_payload_def)
  done

lemma sample_register_multiple:
  "register_multiple sample_platform sample_db asha
     [(hackathon, jan_1, ''0123456789abcdef0123456789abcdef'', ''data:image/png;base64,'')]
   = (sample_db_registered,
      Ok \<lparr>totalEvents = 1, successfulRegistrations = 1, failedRegistrations = [],
          results.registrations = [sample_registration]\<rparr>)"
proof -
  have "users sample_db asha = Some \<lparr>name = ''Asha''\<rparr>"
    by (simp add: sample_db_def asha_def ravi_def)
  then show ?thesis
    by (simp add: register_multiple_def sample_register_one) (simp add: asha_def)
qed

subsection \<open>The two issuance paths\<close>

text \<open>
  C2, the code at a failing input. Asha registers for the event through the single
  event endpoint on 1 January. The payload that is stored carries the digest of
  \<^verbatim>\<open>undefined:undefined:undefined:undefined\<close> as its signature, not the signature of its
  own fields, and validation rejects it for its signature.
\<close>

theorem single_path_signature_rejected:
  "register_event sample_platform jan_1 ''0123456789abcdef0123456789abcdef''
     ''data:image/png;base64,'' sample_db asha hackathon
   = (sample_db_registered
        \<lparr>db.registrations := [sample_registration\<lparr>qrPayload := single_payload\<rparr>]\<rparr>,
      Ok (sample_registration\<lparr>qrPayload := single_payload\<rparr>)) \<and>
   get_prop single_payload ''signature'' =
     Str ''18c67ad961d688e53a294689feea37c542060cbb1bf247ce8b88c26bd31cacb0'' \<and>
   generateQRSignature sample_platform single_payload =
     ''b8b92161ff59624938c57c5ff55978beb94121db12292b1494460afcfaa1e5d5'' \<and>
   \<not> validateQRSignature sample_platform single_payload \<and>
   validate sample_platform jan_15
     (sample_db_registered
        \<lparr>db.registrations := [sample_registration\<lparr>qrPayload := single_payload\<rparr>]\<rparr>)
     (Some single_payload) Undefined Undefined Undefined
   = (sample_db_registered
        \<lparr>db.registrations := [sample_registration\<lparr>qrPayload := single_payload\<rparr>]\<rparr>,
      Rejected ''Invalid QR code signature'')"
proof -
  have a: "get_prop single_payload ''signature'' =
     Str ''18c67ad961d688e53a294689feea37c542060cbb1bf247ce8b88c26bd31cacb0''"
    by (simp add: single_payload_def get_prop_def)
  have b: "generateQRSignature sample_platform single_payload =
     ''b8b92161ff59624938c57c5ff55978beb94121db12292b1494460afcfaa1e5d5''"
    by (simp add: generateQRSignature_def single_canonical sample_platform_def sample_digest_def
      to_hex_def hex_digit_def)
  have m: "missingFields single_payload = []"
    by (simp add: missingFields_def requiredFields_def get_prop_def single_payload_def)
  have c: "validate sample_platform jan_15
     (sample_db_registered
        \<lparr>db.registrations := [sample_registration\<lparr>qrPayload := single_payload\<rparr>]\<rparr>)
     (Some single_payload) Undefined Undefined Undefined
   = (sample_db_registered
        \<lparr>db.registrations := [sample_registration\<lparr>qrPayload := single_payload\<rparr>]\<rparr>,
      Rejected ''Invalid QR code signature'')"
    by (simp add: validate_def m single_payload_invalid)
  from sample_register_event a b single_payload_invalid c show ?thesis by simp
qed

subsection \<open>Duplicates\<close>

text \<open>
  C6 (amended). Issuance fails as already registered exactly when a registration of
  the student for the event exists, whatever its status: in the batch loop always, at the
  single event endpoint when the user and the event exist (it looks them up first).
\<close>

theorem already_registered_iff_any_record:
  "(users d uid \<noteq> None \<and> events d eid \<noteq> None \<longrightarrow>
      (snd (register_event P now rid img d uid eid) = Error 409 ''Already registered for this event'')
      = (\<exists>r \<in> set (db.registrations d). registration.userId r = uid \<and> registration.eventId r = eid)) \<and>
   (snd (register_one P usr uid d eid now rid img) = Inl ''Already registered for this event'')
      = (\<exists>r \<in> set (db.registrations d). registration.userId r = uid \<and> registration.eventId r = eid)"
proof (cases "findRegistration d uid eid")
  case None
  then have n: "\<not> (\<exists>r \<in> set (db.registrations d). registration.userId r = uid \<and> registration.eventId r = eid)"
    by (simp add: findRegistration_None_iff)
  from None have "snd (register_one P usr uid d eid now rid img) \<noteq> Inl ''Already registered for this event''"
    by (simp add: register_one_def Let_def split: option.splits)
  moreover from None have "snd (register_event P now rid img d uid eid)
      \<noteq> Error 409 ''Already registered for this event''"
    by (simp add: register_event_def Let_def split: option.splits)
  ultimately show ?thesis using n by blast
next
  case (Some r)
  then have "findRegistration d uid eid \<noteq> None" by simp
  then have y: "\<exists>r \<in> set (db.registrations d). registration.userId r = uid \<and> registration.eventId r = eid"
    by (simp add: findRegistration_None_iff)
  from Some have "snd (register_one P usr uid d eid now rid img) = Inl ''Already registered for this event''"
    by (simp add: register_one_def)
  moreover from Some have "users d uid \<noteq> None \<and> events d eid \<noteq> None \<longrightarrow>
      snd (register_event P now rid img d uid eid) = Error 409 ''Already registered for this event''"
    by (auto simp: register_event_def)
  ultimately show ?thesis using y by blast
qed


lemma cancelled_register_event:
  "register_event sample_platform jan_15 ''fedcba9876543210fedcba9876543210''
     ''data:image/png;base64,'' sample_db_cancelled asha hackathon
   = (sample_db_cancelled, Error 409 ''Already registered for this event'')"
  by (simp add: register_event_def findRegistration_def sample_db_cancelled_def
      sample_db_registered_def sample_registration_def asha_def ravi_def hackathon_def)

lemma cancelled_register_one:
  "register_one sample_platform \<lparr>name = ''Asha''\<rparr> asha sample_db_cancelled hackathon jan_15
     ''fedcba9876543210fedcba9876543210'' ''data:image/png;base64,''
   = (sample_db_cancelled, Inl ''Already registered for this event'')"
  by (simp add: register_one_def findRegistration_def sample_db_cancelled_def
      sample_db_registered_def sample_registration_def asha_def ravi_def hackathon_def)

text \<open>
  Witness for C6: with Asha's registration in the database, Asha is turned away as
  already registered, and Ravi is not.
\<close>

theorem already_registered_iff_any_record_witness:
  "snd (register_event sample_platform jan_15 ''fedcba9876543210fedcba9876543210''
     ''data:image/png;base64,'' sample_db_cancelled asha hackathon)
     = Error 409 ''Already registered for this event'' \<and>
   snd (register_one sample_platform \<lparr>name = ''Asha''\<rparr> ravi sample_db_cancelled hackathon jan_15
     ''fedcba9876543210fedcba9876543210'' ''data:image/png;base64,'')
     \<noteq> Inl ''Already registered for this event''"
proof -
  have u: "users sample_db_cancelled asha \<noteq> None \<and> events sample_db_cancelled hackathon \<noteq> None"
    by (simp add: sample_db_cancelled_def sample_db_registered_def asha_def ravi_def)
  have a: "\<exists>r \<in> set (db.registrations sample_db_cancelled).
      registration.userId r = asha \<and> registration.eventId r = hackathon"
    by (simp add: sample_db_cancelled_def sample_registration_def)
  have b: "\<not> (\<exists>r \<in> set (db.registrations sample_db_cancelled).
      registration.userId r = ravi \<and> registration.eventId r = hackathon)"
    by (simp add: sample_db_cancelled_def sample_registration_def asha_def ravi_def)
  from already_registered_iff_any_record
    [of sample_db_cancelled asha hackathon sample_platform jan_15
      "''fedcba9876543210fedcba9876543210''" "''data:image/png;base64,''"] u a
  have 1: "snd (register_event sample_platform jan_15 ''fedcba9876543210fedcba9876543210''
     ''data:image/png;base64,'' sample_db_cancelled asha hackathon)
     = Error 409 ''Already registered for this event''"
    by blast
  from already_registered_iff_any_record
    [of sample_db_cancelled ravi hackathon sample_platform jan_15
      "''fedcba9876543210fedcba9876543210''" "''data:image/png;base64,''" "\<lparr>name = ''Asha''\<rparr>"] b
  have 2: "snd (register_one sample_platform \<lparr>name = ''Asha''\<rparr> ravi sample_db_cancelled hackathon jan_15
     ''fedcba9876543210fedcba9876543210'' ''data:image/png;base64,'')
     \<noteq> Inl ''Already registered for this event''"
    by blast
  from 1 2 show ?thesis by simp
qed

text \<open>
  Counterexample to C6 as stated: Asha's only registration for the event is
  cancelled, and both endpoints reject her new attempt as already registered.
\<close>

theorem cancelled_registration_blocks_issuance:
  "db.registrations sample_db_cancelled = [sample_registration\<lparr>registration.status := cancelled\<rparr>] \<and>
   register_event sample_platform jan_15 ''fedcba9876543210fedcba9876543210''
     ''data:image/png;base64,'' sample_db_cancelled asha hackathon
   = (sample_db_cancelled, Error 409 ''Already registered for this event'') \<and>
   register_one sample_platform \<lparr>name = ''Asha''\<rparr> asha sample_db_cancelled hackathon jan_15
     ''fedcba9876543210fedcba9876543210'' ''data:image/png;base64,''
   = (sample_db_cancelled, Inl ''Already registered for this event'')"
  by (simp add: cancelled_register_event cancelled_register_one) (simp add: sample_db_cancelled_def)

subsection \<open>Capacity and deadline\<close>

lemma insertRegistration_Some:
  "findRegistration d (registration.userId r) (registration.eventId r) = None \<Longrightarrow>
   \<forall>r' \<in> set (db.registrations d). registration.registrationId r' \<noteq> registration.registrationId r \<Longrightarrow>
   insertRegistration d r = Some (d\<lparr>db.registrations := db.registrations d @ [r]\<rparr>)"
  by (auto simp: insertRegistration_def findRegistration_None_iff)

text \<open>
  C8 (amended). For a student with no registration for the event, both endpoints
  first reject with \<^verbatim>\<open>Event is full\<close> when the participant count has reached the maximum,
  then reject with \<^verbatim>\<open>Registration deadline has passed\<close> when the current time is past the
  deadline, both without a write; otherwise (the event's date being set and the
  registration id new) they store the registration and the event's count is one more.
\<close>

theorem capacity_checked_before_deadline:
  assumes "findRegistration d uid eid = None" and "events d eid = Some ev"
    and "users d uid = Some usr"
  shows
    "(maxParticipants ev \<le> currentParticipants ev \<longrightarrow>
        register_one P usr uid d eid now rid img = (d, Inl ''Event is full'') \<and>
        register_event P now rid img d uid eid = (d, Error 400 ''Event is full'')) \<and>
     (currentParticipants ev < maxParticipants ev \<and> deadlinePassed now ev \<longrightarrow>
        register_one P usr uid d eid now rid img = (d, Inl ''Registration deadline has passed'') \<and>
        register_event P now rid img d uid eid = (d, Error 400 ''Registration deadline has passed'')) \<and>
     (currentParticipants ev < maxParticipants ev \<and> \<not> deadlinePassed now ev \<and> date ev \<noteq> None \<and>
      (\<forall>r \<in> set (db.registrations d). registration.registrationId r \<noteq> rid) \<longrightarrow>
        (\<exists>d' reg. register_one P usr uid d eid now rid img = (d', Inr reg) \<and>
           events d' eid = Some (ev\<lparr>currentParticipants := currentParticipants ev + 1\<rparr>)) \<and>
        (\<exists>d' reg. register_event P now rid img d uid eid = (d', Ok reg) \<and>
           events d' eid = Some (ev\<lparr>currentParticipants := currentParticipants ev + 1\<rparr>)))"
proof (intro conjI impI)
  assume "maxParticipants ev \<le> currentParticipants ev"
  with assms show "register_one P usr uid d eid now rid img = (d, Inl ''Event is full'')"
    by (simp add: register_one_def)
next
  assume "maxParticipants ev \<le> currentParticipants ev"
  with assms show "register_event P now rid img d uid eid = (d, Error 400 ''Event is full'')"
    by (simp add: register_event_def)
next
  assume "currentParticipants ev < maxParticipants ev \<and> deadlinePassed now ev"
  with assms show "register_one P usr uid d eid now rid img
      = (d, Inl ''Registration deadline has passed'')"
    by (simp add: register_one_def)
next
  assume "currentParticipants ev < maxParticipants ev \<and> deadlinePassed now ev"
  with assms show "register_event P now rid img d uid eid
      = (d, Error 400 ''Registration deadline has passed'')"
    by (simp add: register_event_def)
next
  assume a: "currentParticipants ev < maxParticipants ev \<and> \<not> deadlinePassed now ev \<and>
      date ev \<noteq> None \<and> (\<forall>r \<in> set (db.registrations d). registration.registrationId r \<noteq> rid)"
  then obtain ends where e: "date ev = Some ends" by auto
  from a assms e show "\<exists>d' reg. register_one P usr uid d eid now rid img = (d', Inr reg) \<and>
           events d' eid = Some (ev\<lparr>currentParticipants := currentParticipants ev + 1\<rparr>)"
    by (simp add: register_one_def Let_def insertRegistration_Some saveIncremented_def)
next
  assume a: "currentParticipants ev < maxParticipants ev \<and> \<not> deadlinePassed now ev \<and>
      date ev \<noteq> None \<and> (\<forall>r \<in> set (db.registrations d). registration.registrationId r \<noteq> rid)"
  then obtain ends where e: "date ev = Some ends" by auto
  from a assms e show "\<exists>d' reg. register_event P now rid img d uid eid = (d', Ok reg) \<and>
           events d' eid = Some (ev\<lparr>currentParticipants := currentParticipants ev + 1\<rparr>)"
    by (simp add: register_event_def Let_def insertRegistration_Some saveIncremented_def)
qed

text \<open>
  Witness for C8: Ravi is turned away from the full event on 15 January and from
  the open event on 1 February, and gets the place on 15 January while the event is open.
\<close>

theorem capacity_checked_before_deadline_witness:
  "register_event sample_platform jan_15 ''fedcba9876543210fedcba9876543210''
     ''data:image/png;base64,'' sample_db_registered ravi hackathon
     = (sample_db_registered, Error 400 ''Event is full'') \<and>
   register_event sample_platform feb_1 ''fedcba9876543210fedcba9876543210''
     ''data:image/png;base64,'' sample_db ravi hackathon
     = (sample_db, Error 400 ''Registration deadline has passed'') \<and>
   (\<exists>d' reg. register_one sample_platform \<lparr>name = ''Ravi''\<rparr> ravi sample_db hackathon jan_15
        ''fedcba9876543210fedcba9876543210'' ''data:image/png;base64,'' = (d', Inr reg) \<and>
      events d' hackathon = Some (sample_event\<lparr>currentParticipants := 1\<rparr>))"
proof -
  have f1: "findRegistration sample_db_registered ravi hackathon = None"
    by (simp add: findRegistration_def sample_db_registered_def sample_registration_def
        asha_def ravi_def)
  have e1: "events sample_db_registered hackathon = Some (sample_event\<lparr>currentParticipants := 1\<rparr>)"
    by (simp add: sample_db_registered_def)
  have u1: "users sample_db_registered ravi = Some \<lparr>name = ''Ravi''\<rparr>"
    by (simp add: sample_db_registered_def)
  have full: "maxParticipants (sample_event\<lparr>currentParticipants := 1\<rparr>)
      \<le> currentParticipants (sample_event\<lparr>currentParticipants := 1\<rparr>)"
    by (simp add: sample_event_def)
  have f0: "findRegistration sample_db ravi hackathon = None"
    by (simp add: findRegistration_def sample_db_def)
  have e0: "events sample_db hackathon = Some sample_event"
    by (simp add: sample_db_def)
  have u0: "users sample_db ravi = Some \<lparr>name = ''Ravi''\<rparr>"
    by (simp add: sample_db_def)
  have late: "currentParticipants sample_event < maxParticipants sample_event \<and>
      deadlinePassed feb_1 sample_event"
    by (simp add: sample_event_def deadlinePassed_def feb_1_def)
  have ok: "currentParticipants sample_event < maxParticipants sample_event \<and>
      \<not> deadlinePassed jan_15 sample_event \<and> date sample_event \<noteq> None \<and>
      (\<forall>r \<in> set (db.registrations sample_db).
         registration.registrationId r \<noteq> ''fedcba9876543210fedcba9876543210'')"
    by (simp add: sample_event_def deadlinePassed_def jan_15_def sample_db_def)
  have inc: "sample_event\<lparr>currentParticipants := currentParticipants sample_event + 1\<rparr>
      = sample_event\<lparr>currentParticipants := 1\<rparr>"
    by (simp add: sample_event_def)
  from capacity_checked_before_deadline [OF f1 e1 u1, where P = sample_platform and now = jan_15
      and rid = "''fedcba9876543210fedcba9876543210''" and img = "''data:image/png;base64,''"] full
  have 1: "register_event sample_platform jan_15 ''fedcba9876543210fedcba9876543210''
     ''data:image/png;base64,'' sample_db_registered ravi hackathon
     = (sample_db_registered, Error 400 ''Event is full'')"
    by blast
  from capacity_checked_before_deadline [OF f0 e0 u0, where P = sample_platform and now = feb_1
      and rid = "''fedcba9876543210fedcba9876543210''" and img = "''data:image/png;base64,''"] late
  have 2: "register_event sample_platform feb_1 ''fedcba9876543210fedcba9876543210''
     ''data:image/png;base64,'' sample_db ravi hackathon
     = (sample_db, Error 400 ''Registration deadline has passed'')"
    by blast
  from capacity_checked_before_deadline [OF f0 e0 u0, where P = sample_platform and now = jan_15
      and rid = "''fedcba9876543210fedcba9876543210''" and img = "''data:image/png;base64,''"] ok
  have 3: "\<exists>d' reg. register_one sample_platform \<lparr>name = ''Ravi''\<rparr> ravi sample_db hackathon jan_15
        ''fedcba9876543210fedcba9876543210'' ''data:image/png;base64,'' = (d', Inr reg) \<and>
      events d' hackathon = Some (sample_event\<lparr>currentParticipants := currentParticipants sample_event + 1\<rparr>)"
    by blast
  from 1 2 3 show ?thesis by (simp add: inc)
qed

text \<open>
  Counterexample to C8 as stated: on 1 February the event is full and its deadline
  has passed, and both endpoints report that it is full.
\<close>

theorem full_event_past_deadline_reports_full:
  "events sample_db_registered hackathon = Some (sample_event\<lparr>currentParticipants := 1\<rparr>) \<and>
   maxParticipants (sample_event\<lparr>currentParticipants := 1\<rparr>)
     \<le> currentParticipants (sample_event\<lparr>currentParticipants := 1\<rparr>) \<and>
   deadlinePassed feb_1 (sample_event\<lparr>currentParticipants := 1\<rparr>) \<and>
   register_event sample_platform feb_1 ''fedcba9876543210fedcba9876543210''
     ''data:image/png;base64,'' sample_db_registered ravi hackathon
     = (sample_db_registered, Error 400 ''Event is full'') \<and>
   register_one sample_platform \<lparr>name = ''Ravi''\<rparr> ravi sample_db_registered hackathon feb_1
     ''fedcba9876543210fedcba9876543210'' ''data:image/png;base64,''
     = (sample_db_registered, Inl ''Event is full'')"
proof -
  have f1: "findRegistration sample_db_registered ravi hackathon = None"
    by (simp add: findRegistration_def sample_db_registered_def sample_registration_def
        asha_def ravi_def)
  have e1: "events sample_db_registered hackathon = Some (sample_event\<lparr>currentParticipants := 1\<rparr>)"
    by (simp add: sample_db_registered_def)
  have u1: "users sample_db_registered ravi = Some \<lparr>name = ''Ravi''\<rparr>"
    by (simp add: sample_db_registered_def)
  have d: "deadlinePassed feb_1 (sample_event\<lparr>currentParticipants := 1\<rparr>)"
    by (simp add: deadlinePassed_def sample_event_def feb_1_def)
  have f: "maxParticipants (sample_event\<lparr>currentParticipants := 1\<rparr>)
     \<le> currentParticipants (sample_event\<lparr>currentParticipants := 1\<rparr>)"
    by (simp add: sample_event_def)
  have "register_event sample_platform feb_1 ''fedcba9876543210fedcba9876543210''
     ''data:image/png;base64,'' sample_db_registered ravi hackathon
     = (sample_db_registered, Error 400 ''Event is full'')"
    using f1 e1 u1 f by (simp add: register_event_def)
  moreover have "register_one sample_platform \<lparr>name = ''Ravi''\<rparr> ravi sample_db_registered hackathon feb_1
     ''fedcba9876543210fedcba9876543210'' ''data:image/png;base64,''
     = (sample_db_registered, Inl ''Event is full'')"
    using f1 e1 f by (simp add: register_one_def)
  ultimately show ?thesis using e1 d f by simp
qed

subsection \<open>Terminal registrations\<close>

lemma replace_first_keeps:
  "x \<in> set xs \<Longrightarrow> find p xs = Some z \<Longrightarrow> x \<noteq> z \<Longrightarrow> x \<in> set (replace_first p y xs)"
  by (induction xs) (auto split: if_splits)

lemma delete_first_split:
  "find p xs = Some r \<Longrightarrow> \<exists>ys zs. xs = ys @ r # zs \<and> delete_first p xs = ys @ zs"
proof (induction xs)
  case Nil
  then show ?case by simp
next
  case (Cons x xs)
  show ?case
  proof (cases "p x")
    case True
    with Cons.prems have "x = r" by simp
    with True have "x # xs = [] @ r # xs \<and> delete_first p (x # xs) = [] @ xs" by simp
    then show ?thesis by blast
  next
    case False
    with Cons.prems have "find p xs = Some r" by simp
    from Cons.IH [OF this] obtain ys zs where "xs = ys @ r # zs" "delete_first p xs = ys @ zs"
      by blast
    with False have "x # xs = (x # ys) @ r # zs \<and> delete_first p (x # xs) = (x # ys) @ zs"
      by simp
    then show ?thesis by blast
  qed
qed

text \<open>The registrations after a validation: untouched, or the found one replaced.\<close>

lemma validate_registrations:
  "db.registrations (fst (validate P now d qrData scanEvent scanner loc)) = db.registrations d \<or>
   (\<exists>payload reg y.
      find (matchesPayload payload) (db.registrations d) = Some reg \<and>
      registration.status reg \<noteq> cancelled \<and> registration.status reg \<noteq> attended \<and>
      db.registrations (fst (validate P now d qrData scanEvent scanner loc)) =
        replace_first (matchesPayload payload) y (db.registrations d))"
proof (cases qrData)
  case None
  then show ?thesis by (simp add: validate_def)
next
  case (Some payload)
  note q = Some
  show ?thesis
  proof (cases "missingFields payload = [] \<and> validateQRSignature P payload \<and>
      \<not> wrongEvent scanEvent payload")
    case False
    with q show ?thesis by (auto simp: validate_def)
  next
    case True
    note c = True
    show ?thesis
    proof (cases "find (matchesPayload payload) (db.registrations d)")
      case None
      with q c show ?thesis by (simp add: validate_def)
    next
      case (Some reg)
      note f = Some
      show ?thesis
      proof (cases "registration.status reg = cancelled \<or> expiredAt P now payload \<or>
          registration.status reg = attended")
        case True
        with q c f show ?thesis by (auto simp: validate_def)
      next
        case False
        with q c f have "\<exists>y. db.registrations (fst (validate P now d qrData scanEvent scanner loc)) =
            replace_first (matchesPayload payload) y (db.registrations d)"
          by (simp add: validate_def Let_def del: ex_simps) blast
        with f False show ?thesis by blast
      qed
    qed
  qed
qed

lemma validate_keeps_terminal:
  assumes "r \<in> set (db.registrations d)"
    and "registration.status r = attended \<or> registration.status r = cancelled"
  shows "r \<in> set (db.registrations (fst (validate P now d qrData scanEvent scanner loc)))"
proof -
  from validate_registrations [of P now d qrData scanEvent scanner loc]
  consider "db.registrations (fst (validate P now d qrData scanEvent scanner loc)) = db.registrations d"
    | payload reg y where "find (matchesPayload payload) (db.registrations d) = Some reg"
      "registration.status reg \<noteq> cancelled" "registration.status reg \<noteq> attended"
      "db.registrations (fst (validate P now d qrData scanEvent scanner loc)) =
        replace_first (matchesPayload payload) y (db.registrations d)"
    by blast
  then show ?thesis
  proof cases
    case 1
    with assms(1) show ?thesis by simp
  next
    case 2
    from 2(2,3) assms(2) have "r \<noteq> reg" by auto
    from replace_first_keeps [OF assms(1) 2(1) this] 2(4) show ?thesis by simp
  qed
qed

lemma register_one_keeps:
  "set (db.registrations d) \<subseteq> set (db.registrations (fst (register_one P usr uid d eid now rid img)))"
  by (auto simp: register_one_def Let_def insertRegistration_def saveIncremented_def
      split: option.splits if_splits)

lemma register_loop_keeps:
  "set (db.registrations d) \<subseteq> set (db.registrations (fst (register_loop P usr uid reqs (d, res))))"
proof (induction reqs arbitrary: d res)
  case Nil
  then show ?case by simp
next
  case (Cons q reqs)
  obtain eid now rid img where q: "q = (eid, now, rid, img)" by (cases q) auto
  obtain d' out where o: "register_one P usr uid d eid now rid img = (d', out)"
    by (cases "register_one P usr uid d eid now rid img") auto
  from register_one_keeps [of d P usr uid eid now rid img] o
  have 1: "set (db.registrations d) \<subseteq> set (db.registrations d')" by simp
  show ?case
  proof (cases out)
    case (Inl reason)
    with q o 1 Cons.IH [of d'] show ?thesis by auto
  next
    case (Inr reg)
    with q o 1 Cons.IH [of d'] show ?thesis by auto
  qed
qed

lemma register_multiple_keeps:
  "set (db.registrations d) \<subseteq> set (db.registrations (fst (register_multiple P d uid reqs)))"
proof (cases "uid = [] \<or> reqs = [] \<or> users d uid = None")
  case True
  then show ?thesis by (auto simp: register_multiple_def)
next
  case False
  then obtain usr where u: "users d uid = Some usr" by auto
  let ?res = "\<lparr>totalEvents = length reqs, successfulRegistrations = 0,
      failedRegistrations = [], results.registrations = []\<rparr>"
  from False u have "fst (register_multiple P d uid reqs)
      = fst (register_loop P usr uid reqs (d, ?res))"
    by (simp add: register_multiple_def split: prod.splits)
  with register_loop_keeps [of d P usr uid reqs ?res] show ?thesis by simp
qed

lemma register_event_keeps:
  "set (db.registrations d) \<subseteq> set (db.registrations (fst (register_event P now rid img d uid eid)))"
  by (auto simp: register_event_def Let_def insertRegistration_def saveIncremented_def
      split: option.splits if_splits)


text \<open>
  C9 (amended). A registration whose status is \<open>attended\<close> or \<open>cancelled\<close> is
  still in the collection, unchanged, after a validation and after a registration through
  either endpoint. Unregistration deletes the student's registration for the event whatever
  its status, and the administrative deletion of the user deletes it with the user's other
  registrations.
\<close>

theorem terminal_registration_kept_until_unregistered:
  assumes "r \<in> set (db.registrations d)"
    and "registration.status r = attended \<or> registration.status r = cancelled"
  shows "r \<in> set (db.registrations (fst (validate P now d qrData scanEvent scanner loc))) \<and>
     r \<in> set (db.registrations (fst (register_event P now rid img d uid eid))) \<and>
     r \<in> set (db.registrations (fst (register_multiple P d uid reqs))) \<and>
     (findRegistration d (registration.userId r) (registration.eventId r) = Some r \<longrightarrow>
        (\<exists>xs ys. db.registrations d = xs @ r # ys \<and>
           db.registrations (fst (unregister d (registration.userId r) (registration.eventId r)))
             = xs @ ys)) \<and>
     (users d (registration.userId r) \<noteq> None \<longrightarrow>
        r \<notin> set (db.registrations (fst (delete_user d (registration.userId r)))))"
proof (intro conjI impI)
  show "r \<in> set (db.registrations (fst (validate P now d qrData scanEvent scanner loc)))"
    using assms by (rule validate_keeps_terminal)
  show "r \<in> set (db.registrations (fst (register_event P now rid img d uid eid)))"
    using assms(1) register_event_keeps by blast
  show "r \<in> set (db.registrations (fst (register_multiple P d uid reqs)))"
    using assms(1) register_multiple_keeps by blast
next
  assume f: "findRegistration d (registration.userId r) (registration.eventId r) = Some r"
  then have "find (\<lambda>x. registration.userId x = registration.userId r \<and>
      registration.eventId x = registration.eventId r) (db.registrations d) = Some r"
    by (simp add: findRegistration_def)
  from delete_first_split [OF this] obtain xs ys where
    s: "db.registrations d = xs @ r # ys"
      "delete_first (\<lambda>x. registration.userId x = registration.userId r \<and>
         registration.eventId x = registration.eventId r) (db.registrations d) = xs @ ys"
    by blast
  from f have "db.registrations (fst (unregister d (registration.userId r) (registration.eventId r)))
      = delete_first (\<lambda>x. registration.userId x = registration.userId r \<and>
         registration.eventId x = registration.eventId r) (db.registrations d)"
    by (simp add: unregister_def Let_def split: option.splits)
  with s show "\<exists>xs ys. db.registrations d = xs @ r # ys \<and>
           db.registrations (fst (unregister d (registration.userId r) (registration.eventId r)))
             = xs @ ys"
    by auto
next
  assume "users d (registration.userId r) \<noteq> None"
  then show "r \<notin> set (db.registrations (fst (delete_user d (registration.userId r))))"
    by (auto simp: delete_user_def)
qed

lemma attended_find:
  "findRegistration sample_db_attended asha hackathon
     = Some (sample_registration\<lparr>registration.status := attended\<rparr>)"
  by (simp add: findRegistration_def sample_db_attended_def sample_registration_def)

lemma attended_unregister:
  "unregister sample_db_attended asha hackathon
     = (sample_db_attended
          \<lparr>db.registrations := [],
           events := [hackathon \<mapsto> sample_event\<lparr>currentParticipants := 0\<rparr>]\<rparr>,
        Ok ())"
  by (simp add: unregister_def attended_find Let_def)
    (simp add: sample_db_attended_def sample_db_registered_def sample_registration_def
      sample_event_def)

text \<open>
  Witness for C9: Asha's attended registration survives a scan and Ravi's
  attempts to register; it is gone after her unregistration, and after her deletion.
\<close>

theorem terminal_registration_kept_until_unregistered_witness:
  "sample_registration\<lparr>registration.status := attended\<rparr>
     \<in> set (db.registrations (fst (validate sample_platform feb_2 sample_db_attended
           (Some sample_payload) Undefined Undefined Undefined))) \<and>
   sample_registration\<lparr>registration.status := attended\<rparr>
     \<in> set (db.registrations (fst (register_event sample_platform jan_15
           ''fedcba9876543210fedcba9876543210'' ''data:image/png;base64,''
           sample_db_attended ravi hackathon))) \<and>
   sample_registration\<lparr>registration.status := attended\<rparr>
     \<in> set (db.registrations (fst (register_multiple sample_platform sample_db_attended ravi
           [(hackathon, jan_15, ''fedcba9876543210fedcba9876543210'', ''data:image/png;base64,'')]))) \<and>
   db.registrations (fst (unregister sample_db_attended asha hackathon)) = [] \<and>
   sample_registration\<lparr>registration.status := attended\<rparr>
     \<notin> set (db.registrations (fst (delete_user sample_db_attended asha)))"
proof -
  let ?r = "sample_registration\<lparr>registration.status := attended\<rparr>"
  have m: "?r \<in> set (db.registrations sample_db_attended)"
    by (simp add: sample_db_attended_def)
  have s: "registration.status ?r = attended \<or> registration.status ?r = cancelled"
    by simp
  have ids: "registration.userId ?r = asha" "registration.eventId ?r = hackathon"
    by (simp_all add: sample_registration_def)
  have u: "users sample_db_attended asha \<noteq> None"
    by (simp add: sample_db_attended_def sample_db_registered_def)
  have regs: "db.registrations sample_db_attended = [?r]"
    by (simp add: sample_db_attended_def)
  note t = terminal_registration_kept_until_unregistered [OF m s,
      where P = sample_platform and now = jan_15 and uid = ravi and eid = hackathon
        and rid = "''fedcba9876543210fedcba9876543210''" and img = "''data:image/png;base64,''"
        and reqs = "[(hackathon, jan_15, ''fedcba9876543210fedcba9876543210'', ''data:image/png;base64,'')]"]
  note t2 = terminal_registration_kept_until_unregistered [OF m s,
      where P = sample_platform and now = feb_2 and qrData = "Some sample_payload"
        and scanEvent = Undefined and scanner = Undefined and loc = Undefined]
  from t2 have 1: "?r \<in> set (db.registrations (fst (validate sample_platform feb_2 sample_db_attended
           (Some sample_payload) Undefined Undefined Undefined)))"
    by blast
  from t have 2: "?r \<in> set (db.registrations (fst (register_event sample_platform jan_15
           ''fedcba9876543210fedcba9876543210'' ''data:image/png;base64,''
           sample_db_attended ravi hackathon)))"
    and 3: "?r \<in> set (db.registrations (fst (register_multiple sample_platform sample_db_attended ravi
           [(hackathon, jan_15, ''fedcba9876543210fedcba9876543210'', ''data:image/png;base64,'')])))"
    by blast+
  from t have "findRegistration sample_db_attended (registration.userId ?r) (registration.eventId ?r)
        = Some ?r \<longrightarrow>
      (\<exists>xs ys. db.registrations sample_db_attended = xs @ ?r # ys \<and>
         db.registrations (fst (unregister sample_db_attended (registration.userId ?r)
           (registration.eventId ?r))) = xs @ ys)"
    by blast
  with attended_find ids have "\<exists>xs ys. db.registrations sample_db_attended = xs @ ?r # ys \<and>
      db.registrations (fst (unregister sample_db_attended asha hackathon)) = xs @ ys"
    by simp
  then obtain xs ys where
    x: "db.registrations sample_db_attended = xs @ ?r # ys"
      "db.registrations (fst (unregister sample_db_attended asha hackathon)) = xs @ ys"
    by blast
  from x(1) regs have "xs = [] \<and> ys = []"
    by (metis append_eq_Cons_conv append_is_Nil_conv list.inject list.distinct(1))
  with x(2) have 4: "db.registrations (fst (unregister sample_db_attended asha hackathon)) = []"
    by simp
  from t u ids have 5: "?r \<notin> set (db.registrations (fst (delete_user sample_db_attended asha)))"
    by auto
  from 1 2 3 4 5 show ?thesis by blast
qed

text \<open>
  Counterexample to C9 as stated: unregistration succeeds on Asha's attended
  registration and deletes the record.
\<close>

theorem unregister_deletes_attended:
  "registration.status (sample_registration\<lparr>registration.status := attended\<rparr>) = attended \<and>
   db.registrations sample_db_attended = [sample_registration\<lparr>registration.status := attended\<rparr>] \<and>
   snd (unregister sample_db_attended asha hackathon) = Ok () \<and>
   db.registrations (fst (unregister sample_db_attended asha hackathon)) = []"
  by (simp add: attended_unregister) (simp add: sample_db_attended_def)

subsection \<open>Overlapping registrations\<close>

lemma find_append_last:
  "\<forall>x \<in> set xs. \<not> p x \<Longrightarrow> p y \<Longrightarrow> find p (xs @ [y]) = Some y"
  by (induction xs) auto

lemma new_registration_ids:
  "registration.registrationId (new_registration P p ev ends) = p_registrationId p"
  "registration.userId (new_registration P p ev ends) = p_userId p"
  "registration.eventId (new_registration P p ev ends) = p_eventId p"
  "registration.status (new_registration P p ev ends) = registered"
  by (simp_all add: new_registration_def Let_def)

text \<open>The loop body in terms of the registration a pass builds.\<close>

lemma register_one_pass:
  "register_one P (p_user p) (p_userId p) d (p_eventId p) (p_now p) (p_registrationId p) (p_qrCode p) =
     (case findRegistration d (p_userId p) (p_eventId p) of
        Some existingRegistration \<Rightarrow> (d, Inl ''Already registered for this event'')
      | None \<Rightarrow>
     (case events d (p_eventId p) of
        None \<Rightarrow> (d, Inl ''Event not found'')
      | Some ev \<Rightarrow>
          if currentParticipants ev \<ge> maxParticipants ev then (d, Inl ''Event is full'')
          else if deadlinePassed (p_now p) ev then (d, Inl ''Registration deadline has passed'')
          else
            (case date ev of
               None \<Rightarrow> (d, Inl ''Registration processing failed'')
             | Some ends \<Rightarrow>
                 (case insertRegistration d (new_registration P p ev ends) of
                    None \<Rightarrow> (d, Inl ''Registration processing failed'')
                  | Some d' \<Rightarrow>
                      (saveIncremented d' (p_eventId p) ev, Inr (new_registration P p ev ends))))))"
  by (simp add: register_one_def new_registration_def Let_def split: option.splits)

text \<open>
  A pass that takes its six steps with no other pass in between is the loop body
  \<open>register_one\<close>.
\<close>

lemma pass_alone:
  assumes "users d (p_userId p) = Some (p_user p)"
  shows "run_passes P [p] [0, 0, 0, 0, 0, 0] (d, [AtFindOne]) =
     (case register_one P (p_user p) (p_userId p) d (p_eventId p) (p_now p)
             (p_registrationId p) (p_qrCode p) of
        (d', out) \<Rightarrow> (d', [Finished out]))"
proof (cases "findRegistration d (p_userId p) (p_eventId p)")
  case (Some r)
  then show ?thesis by (simp add: register_one_pass)
next
  case None
  note f = None
  show ?thesis
  proof (cases "events d (p_eventId p)")
    case None
    with f show ?thesis by (simp add: register_one_pass)
  next
    case (Some ev)
    note e = Some
    show ?thesis
    proof (cases "currentParticipants ev \<ge> maxParticipants ev \<or> deadlinePassed (p_now p) ev \<or>
        date ev = None")
      case True
      with f e show ?thesis by (auto simp: register_one_pass)
    next
      case False
      then obtain ends where ends: "date ev = Some ends" by auto
      let ?reg = "new_registration P p ev ends"
      show ?thesis
      proof (cases "insertRegistration d ?reg")
        case None
        with f e False ends show ?thesis
          by (simp add: register_one_pass)
      next
        case (Some d1)
        then have d1: "d1 = d\<lparr>db.registrations := db.registrations d @ [?reg]\<rparr>"
          and fresh: "\<forall>r \<in> set (db.registrations d).
              registration.registrationId r \<noteq> registration.registrationId ?reg"
          by (auto simp: insertRegistration_def split: if_splits)
        from fresh have r: "find (\<lambda>r. registration.registrationId r = registration.registrationId ?reg)
            (db.registrations (saveIncremented d1 (p_eventId p) ev)) = Some ?reg"
          unfolding d1 saveIncremented_def by (simp add: find_append_last)
        have q: "populated (saveIncremented d1 (p_eventId p) ev) ?reg"
          using assms by (simp add: populated_def saveIncremented_def d1 new_registration_ids)
        have v: "events d1 (p_eventId p) \<noteq> None"
          using e by (simp add: d1)
        show ?thesis
          using f e False ends Some r q v
          by (simp add: register_one_pass)
      qed
    qed
  qed
qed


lemma deadlinePassed_count:
  "deadlinePassed now (ev\<lparr>currentParticipants := c\<rparr>) = deadlinePassed now ev"
  by (simp add: deadlinePassed_def)

lemma findRegistration_append:
  "findRegistration d uid eid = None \<Longrightarrow> registration.userId r \<noteq> uid \<Longrightarrow>
   findRegistration (saveIncremented (d\<lparr>db.registrations := db.registrations d @ [r]\<rparr>) e ev) uid eid
     = None"
  by (simp add: findRegistration_None_iff saveIncremented_def)

text \<open>
  Passes served in turn, all for one event and before its deadline, by different students
  none of whom is registered, with registration ids that are new and different: the
  first ones succeed until the event is full, the others are told so.
\<close>

lemma serve_in_turn_fills:
  assumes "events d eid = Some ev" and "date ev \<noteq> None"
    and "\<forall>p \<in> set ps. p_eventId p = eid \<and> \<not> deadlinePassed (p_now p) ev"
    and "distinct (map p_userId ps)" and "distinct (map p_registrationId ps)"
    and "\<forall>p \<in> set ps. findRegistration d (p_userId p) eid = None"
    and "\<forall>p \<in> set ps. \<forall>r \<in> set (db.registrations d).
           registration.registrationId r \<noteq> p_registrationId p"
  shows "\<exists>d' regs.
     serve_in_turn P ps d =
       (d', map Inr regs @
            replicate (length ps - length regs) (Inl ''Event is full'')) \<and>
     length regs = min (length ps) (nat (maxParticipants ev - currentParticipants ev)) \<and>
     events d' eid =
       Some (ev\<lparr>currentParticipants := currentParticipants ev + int (length regs)\<rparr>)"
  using assms
proof (induction ps arbitrary: d ev)
  case Nil
  then show ?case by simp
next
  case (Cons p ps)
  from Cons.prems(3) have pe: "p_eventId p = eid" and pd: "\<not> deadlinePassed (p_now p) ev"
    by simp_all
  from Cons.prems(6) have pf: "findRegistration d (p_userId p) (p_eventId p) = None"
    using pe by simp
  from Cons.prems(2) obtain ends where ends: "date ev = Some ends" by auto
  from Cons.prems(1) pe have ev_p: "events d (p_eventId p) = Some ev" by simp
  show ?case
  proof (cases "maxParticipants ev \<le> currentParticipants ev")
    case True
    then have one: "register_one P (p_user p) (p_userId p) d (p_eventId p) (p_now p)
        (p_registrationId p) (p_qrCode p) = (d, Inl ''Event is full'')"
      using pf ev_p by (simp add: register_one_pass)
    from Cons.IH [OF Cons.prems(1,2)] Cons.prems(3-7)
    obtain d' regs where ih:
      "serve_in_turn P ps d =
         (d', map Inr regs @ replicate (length ps - length regs) (Inl ''Event is full''))"
      "length regs = min (length ps) (nat (maxParticipants ev - currentParticipants ev))"
      "events d' eid = Some (ev\<lparr>currentParticipants := currentParticipants ev + int (length regs)\<rparr>)"
      by auto
    from True ih(2) have z: "regs = []" by simp
    from one ih z have "serve_in_turn P (p # ps) d =
        (d', map Inr regs @ replicate (length (p # ps) - length regs) (Inl ''Event is full''))"
      by simp
    with ih z True show ?thesis by auto
  next
    case False
    let ?reg = "new_registration P p ev ends"
    let ?d1 = "saveIncremented (d\<lparr>db.registrations := db.registrations d @ [?reg]\<rparr>) eid ev"
    let ?ev1 = "ev\<lparr>currentParticipants := currentParticipants ev + 1\<rparr>"
    from Cons.prems(7) have "\<forall>r \<in> set (db.registrations d).
        registration.registrationId r \<noteq> registration.registrationId ?reg"
      by (simp add: new_registration_ids)
    with pf have ins: "insertRegistration d ?reg =
        Some (d\<lparr>db.registrations := db.registrations d @ [?reg]\<rparr>)"
      by (intro insertRegistration_Some) (simp_all add: new_registration_ids)
    from False pf pd ends ins ev_p
    have "register_one P (p_user p) (p_userId p) d (p_eventId p) (p_now p)
        (p_registrationId p) (p_qrCode p)
        = (saveIncremented (d\<lparr>db.registrations := db.registrations d @ [?reg]\<rparr>) (p_eventId p) ev,
           Inr ?reg)"
      by (simp add: register_one_pass)
    then have one: "register_one P (p_user p) (p_userId p) d (p_eventId p) (p_now p)
        (p_registrationId p) (p_qrCode p) = (?d1, Inr ?reg)"
      using pe by simp
    have e1: "events ?d1 eid = Some ?ev1"
      by (simp add: saveIncremented_def)
    have dt: "date ?ev1 \<noteq> None"
      using ends by simp
    have a3: "\<forall>q \<in> set ps. p_eventId q = eid \<and> \<not> deadlinePassed (p_now q) ?ev1"
      using Cons.prems(3) by (simp add: deadlinePassed_count)
    have a4: "distinct (map p_userId ps)" and a5: "distinct (map p_registrationId ps)"
      using Cons.prems(4,5) by simp_all
    have a6: "\<forall>q \<in> set ps. findRegistration ?d1 (p_userId q) eid = None"
    proof
      fix q assume q: "q \<in> set ps"
      with Cons.prems(4) have "p_userId p \<noteq> p_userId q" by auto
      then have "registration.userId ?reg \<noteq> p_userId q"
        by (simp add: new_registration_ids)
      moreover from q Cons.prems(6) have "findRegistration d (p_userId q) eid = None" by simp
      ultimately show "findRegistration ?d1 (p_userId q) eid = None"
        by (rule findRegistration_append [rotated])
    qed
    have a7: "\<forall>q \<in> set ps. \<forall>r \<in> set (db.registrations ?d1).
           registration.registrationId r \<noteq> p_registrationId q"
    proof (intro ballI)
      fix q r assume q: "q \<in> set ps" and r: "r \<in> set (db.registrations ?d1)"
      from q Cons.prems(5) have n: "p_registrationId p \<noteq> p_registrationId q" by auto
      from r have "r \<in> set (db.registrations d) \<or> r = ?reg"
        by (auto simp: saveIncremented_def)
      then show "registration.registrationId r \<noteq> p_registrationId q"
        using q Cons.prems(7) n by (auto simp: new_registration_ids)
    qed
    from Cons.IH [OF e1 dt a3 a4 a5 a6 a7]
    obtain d' regs where ih:
      "serve_in_turn P ps ?d1 =
         (d', map Inr regs @ replicate (length ps - length regs) (Inl ''Event is full''))"
      "length regs = min (length ps) (nat (maxParticipants ?ev1 - currentParticipants ?ev1))"
      "events d' eid = Some (?ev1\<lparr>currentParticipants := currentParticipants ?ev1 + int (length regs)\<rparr>)"
      by auto
    from one ih(1) have s: "serve_in_turn P (p # ps) d =
        (d', map Inr (?reg # regs) @
             replicate (length (p # ps) - length (?reg # regs)) (Inl ''Event is full''))"
      by simp
    from False ih(2) have l: "length (?reg # regs) =
        min (length (p # ps)) (nat (maxParticipants ev - currentParticipants ev))"
      by simp
    from ih(3) have e: "events d' eid =
        Some (ev\<lparr>currentParticipants := currentParticipants ev + int (length (?reg # regs))\<rparr>)"
      by (simp add: add.commute add.left_commute)
    from s l e show ?thesis by blast
  qed
qed

text \<open>A batch request for one event is one pass of the loop.\<close>

lemma register_multiple_single:
  assumes "uid \<noteq> []" and "users d uid = Some usr"
  shows "register_multiple P d uid [(eid, now, rid, img)] =
     (case register_one P usr uid d eid now rid img of
        (d', Inl reason) \<Rightarrow>
          (d', Ok \<lparr>totalEvents = 1, successfulRegistrations = 0,
                   failedRegistrations = [(eid, reason)], results.registrations = []\<rparr>)
      | (d', Inr reg) \<Rightarrow>
          (d', Ok \<lparr>totalEvents = 1, successfulRegistrations = 1,
                   failedRegistrations = [], results.registrations = [reg]\<rparr>))"
  using assms by (simp add: register_multiple_def split: prod.splits sum.splits)

text \<open>
  C4 (amended). Let an event have \<open>K\<close> places left, and let \<open>N > K\<close> students,
  none of them registered for it, attempt to register before its deadline, one attempt
  after another, none overlapping. Then the first \<open>K\<close> attempts succeed, the other
  \<open>N - K\<close> fail with \<^verbatim>\<open>Event is full\<close>, and the event's count ends \<open>K\<close> higher, at its
  maximum. The count is read and tested in one step of an attempt and written back, plus
  one, in a later step: nothing is claimed for attempts that overlap.
\<close>

theorem attempts_in_turn_fill_capacity:
  assumes "events d eid = Some ev" and "date ev \<noteq> None"
    and "\<forall>p \<in> set ps. p_eventId p = eid \<and> \<not> deadlinePassed (p_now p) ev"
    and "distinct (map p_userId ps)" and "distinct (map p_registrationId ps)"
    and "\<forall>p \<in> set ps. findRegistration d (p_userId p) eid = None"
    and "\<forall>p \<in> set ps. \<forall>r \<in> set (db.registrations d).
           registration.registrationId r \<noteq> p_registrationId p"
    and "currentParticipants ev \<le> maxParticipants ev"
    and "K = nat (maxParticipants ev - currentParticipants ev)"
    and "K < length ps"
  shows "\<exists>d' regs ev'.
     serve_in_turn P ps d =
       (d', map Inr regs @ replicate (length ps - K) (Inl ''Event is full'')) \<and>
     length regs = K \<and>
     events d' eid = Some ev' \<and>
     currentParticipants ev' = currentParticipants ev + int K \<and>
     currentParticipants ev' = maxParticipants ev"
proof -
  from serve_in_turn_fills [OF assms(1-7), of P] obtain d' regs where r:
    "serve_in_turn P ps d =
       (d', map Inr regs @ replicate (length ps - length regs) (Inl ''Event is full''))"
    "length regs = min (length ps) (nat (maxParticipants ev - currentParticipants ev))"
    "events d' eid =
       Some (ev\<lparr>currentParticipants := currentParticipants ev + int (length regs)\<rparr>)"
    by blast
  from r(2) assms(9,10) have k: "length regs = K" by simp
  let ?ev' = "ev\<lparr>currentParticipants := currentParticipants ev + int K\<rparr>"
  from assms(8,9) have "currentParticipants ?ev' = maxParticipants ev" by simp
  with r k show ?thesis by auto
qed

lemma second_signature:
  "generateQRSignature sample_platform
     [(''registration_id'', Str ''fedcba9876543210fedcba9876543210''),
      (''student_id'', Str ''650000000000000000000002''),
      (''event_id'', Str ''660000000000000000000001''),
      (''issued_at'', Str ''2025-01-01T00:00:00.000Z''),
      (''expires_at'', Str ''2025-02-01T00:00:00.000Z''),
      (''signature'', Str []),
      (''event_title'', Str ''Hackathon''),
      (''student_name'', Str ''Ravi'')]
   = ''4f4463373cf01bdbd548de4d25d41871d6e7fe7428000131f37194be8574cf0c''"
  by (simp add: generateQRSignature_def canonical_def get_prop_def sample_platform_def
      second_digest_def to_hex_def hex_digit_def)

lemma asha_new_registration:
  "new_registration sample_platform asha_pass sample_event 1738368000000 = sample_registration"
  by (simp add: new_registration_def asha_pass_def asha_def hackathon_def jan_1_def Let_def
      sample_toISOString sample_event_def batch_signature set_prop_def
      sample_registration_def sample_payload_def)

lemma ravi_new_registration:
  "new_registration sample_platform ravi_pass sample_event 1738368000000 = ravi_registration"
  by (simp add: new_registration_def ravi_pass_def ravi_def hackathon_def jan_1_def Let_def
      sample_toISOString sample_event_def second_signature set_prop_def
      ravi_registration_def)


lemma sample_db_facts:
  "findRegistration sample_db asha hackathon = None"
  "findRegistration sample_db ravi hackathon = None"
  "events sample_db hackathon = Some sample_event"
  "date sample_event = Some 1738368000000"
  "\<not> maxParticipants sample_event \<le> currentParticipants sample_event"
  "\<not> deadlinePassed jan_1 sample_event"
  by (simp_all add: findRegistration_def sample_db_def sample_event_def deadlinePassed_def jan_1_def)

lemma pass_fields:
  "p_userId asha_pass = asha" "p_eventId asha_pass = hackathon" "p_now asha_pass = jan_1"
  "p_userId ravi_pass = ravi" "p_eventId ravi_pass = hackathon" "p_now ravi_pass = jan_1"
  by (simp_all add: asha_pass_def ravi_pass_def)

lemma overlap_reads:
  "run_passes sample_platform [asha_pass, ravi_pass] [0, 1, 0, 1, 0, 1]
     (sample_db, [AtFindOne, AtFindOne])
   = (sample_db, [AtRegistrationSave sample_event sample_registration,
                  AtRegistrationSave sample_event ravi_registration])"
  by (simp add: pass_fields sample_db_facts asha_new_registration ravi_new_registration)

lemma overlap_inserts:
  "run_passes sample_platform [asha_pass, ravi_pass] [0, 1]
     (sample_db, [AtRegistrationSave sample_event sample_registration,
                  AtRegistrationSave sample_event ravi_registration])
   = (sample_db\<lparr>db.registrations := [sample_registration, ravi_registration]\<rparr>,
      [AtEventSave sample_event sample_registration, AtEventSave sample_event ravi_registration])"
  by (simp add: insertRegistration_def sample_db_def sample_registration_def ravi_registration_def
      asha_def ravi_def)

lemma overlap_writes:
  "run_passes sample_platform [asha_pass, ravi_pass] [0, 1, 0, 1]
     (sample_db\<lparr>db.registrations := [sample_registration, ravi_registration]\<rparr>,
      [AtEventSave sample_event sample_registration, AtEventSave sample_event ravi_registration])
   = (sample_db_registered\<lparr>db.registrations := [sample_registration, ravi_registration]\<rparr>,
      [Finished (Inr sample_registration), Finished (Inr ravi_registration)])"
  by (simp add: pass_fields saveIncremented_def populated_def)
    (simp add: sample_db_def sample_db_registered_def sample_registration_def ravi_registration_def
      sample_event_def asha_def ravi_def hackathon_def)

lemma run_passes_append:
  "run_passes P ps (xs @ ys) s = run_passes P ps ys (run_passes P ps xs s)"
proof (induction xs arbitrary: s)
  case Nil
  show ?case by (cases s) simp
next
  case (Cons i xs)
  obtain d sts where s: "s = (d, sts)" by (cases s) auto
  show ?case
    unfolding s using Cons.IH by (simp split: prod.splits)
qed

text \<open>
  Counterexample to C4 as stated: the event has one place left; Asha's and Ravi's
  attempts take their steps alternately, both read the count 0, both are registered, and
  the count ends at 1 with two registrations stored.
\<close>

theorem overlapping_attempts_overbook:
  "maxParticipants sample_event - currentParticipants sample_event = 1 \<and>
   events sample_db hackathon = Some sample_event \<and>
   run_passes sample_platform [asha_pass, ravi_pass] [0, 1, 0, 1, 0, 1, 0, 1, 0, 1, 0, 1]
     (sample_db, [AtFindOne, AtFindOne])
   = (sample_db_registered\<lparr>db.registrations := [sample_registration, ravi_registration]\<rparr>,
      [Finished (Inr sample_registration), Finished (Inr ravi_registration)]) \<and>
   events sample_db_registered hackathon = Some (sample_event\<lparr>currentParticipants := 1\<rparr>)"
proof -
  have "run_passes sample_platform [asha_pass, ravi_pass] ([0, 1, 0, 1, 0, 1] @ [0, 1] @ [0, 1, 0, 1])
     (sample_db, [AtFindOne, AtFindOne])
   = (sample_db_registered\<lparr>db.registrations := [sample_registration, ravi_registration]\<rparr>,
      [Finished (Inr sample_registration), Finished (Inr ravi_registration)])"
    by (simp only: run_passes_append overlap_reads overlap_inserts overlap_writes)
  moreover have "maxParticipants sample_event - currentParticipants sample_event = 1"
    by (simp add: sample_event_def)
  moreover have "events sample_db_registered hackathon = Some (sample_event\<lparr>currentParticipants := 1\<rparr>)"
    by (simp add: sample_db_registered_def)
  ultimately show ?thesis by (simp add: sample_db_facts)
qed

text \<open>
  Witness for C4: Asha's attempt and then Ravi's, for the event with one place
  left.
\<close>

theorem attempts_in_turn_fill_capacity_witness:
  "\<exists>d' regs ev'.
     serve_in_turn sample_platform [asha_pass, ravi_pass] sample_db =
       (d', map Inr regs @ [Inl ''Event is full'']) \<and>
     length regs = 1 \<and>
     events d' hackathon = Some ev' \<and>
     currentParticipants ev' = 1 \<and>
     currentParticipants ev' = maxParticipants sample_event"
proof -
  have a3: "\<forall>p \<in> set [asha_pass, ravi_pass].
      p_eventId p = hackathon \<and> \<not> deadlinePassed (p_now p) sample_event"
    by (simp add: pass_fields sample_db_facts)
  have a4: "distinct (map p_userId [asha_pass, ravi_pass])"
    by (simp add: pass_fields asha_def ravi_def)
  have a5: "distinct (map p_registrationId [asha_pass, ravi_pass])"
    by (simp add: asha_pass_def ravi_pass_def)
  have a6: "\<forall>p \<in> set [asha_pass, ravi_pass]. findRegistration sample_db (p_userId p) hackathon = None"
    by (simp add: pass_fields sample_db_facts)
  have a7: "\<forall>p \<in> set [asha_pass, ravi_pass]. \<forall>r \<in> set (db.registrations sample_db).
           registration.registrationId r \<noteq> p_registrationId p"
    by (simp add: sample_db_def)
  have a2: "date sample_event \<noteq> None" by (simp add: sample_db_facts)
  have a8: "currentParticipants sample_event \<le> maxParticipants sample_event"
    by (simp add: sample_event_def)
  have a9: "(1::nat) = nat (maxParticipants sample_event - currentParticipants sample_event)"
    by (simp add: sample_event_def)
  have a10: "(1::nat) < length [asha_pass, ravi_pass]" by simp
  from attempts_in_turn_fill_capacity [OF sample_db_facts(3) a2 a3 a4 a5 a6 a7 a8 a9 a10,
      of sample_platform]
  show ?thesis by (simp add: sample_event_def)
qed

subsection \<open>Overlapping scans\<close>

text \<open>A scan that takes its three steps with no other request in between is \<open>validate\<close>.\<close>

lemma scan_alone:
  "run_scans P [s] [0, 0, 0] (d, [AtLookup]) =
     (case validate P (s_now s) d (s_qrData s) (s_eventId s) (s_scannedBy s) (s_location s) of
        (d', a) \<Rightarrow> (d', [Answered a]))"
proof (cases "s_qrData s")
  case None
  then show ?thesis by (simp add: validate_def)
next
  case (Some payload)
  note q = Some
  show ?thesis
  proof (cases "missingFields payload = [] \<and> validateQRSignature P payload \<and>
      \<not> wrongEvent (s_eventId s) payload")
    case False
    with q show ?thesis by (auto simp: validate_def)
  next
    case True
    note c = True
    show ?thesis
    proof (cases "find (matchesPayload payload) (db.registrations d)")
      case None
      with q c show ?thesis by (simp add: validate_def)
    next
      case (Some reg)
      note f = Some
      show ?thesis
      proof (cases "registration.status reg = cancelled \<or> expiredAt P (s_now s) payload \<or>
          registration.status reg = attended")
        case True
        with q c f show ?thesis by (auto simp: validate_def)
      next
        case False
        with q c f show ?thesis
          by (simp add: validate_def Let_def scan_entry_of_def populated_def)
      qed
    qed
  qed
qed

lemma validate_later:
  assumes "missingFields payload = []" and "validateQRSignature P payload"
    and "find (matchesPayload payload) (db.registrations d) = Some reg"
    and "registration.status reg = attended" and "populated d reg"
  shows "fst (validate P now d (Some payload) scanEvent scanner loc) = d \<and>
     (\<forall>r e. snd (validate P now d (Some payload) scanEvent scanner loc) \<noteq> Accepted r e) \<and>
     (wrongEvent scanEvent payload \<longrightarrow>
        snd (validate P now d (Some payload) scanEvent scanner loc)
          = Rejected ''QR code is for a different event'') \<and>
     (\<not> wrongEvent scanEvent payload \<and> expiredAt P now payload \<longrightarrow>
        snd (validate P now d (Some payload) scanEvent scanner loc)
          = Rejected ''QR code has expired'') \<and>
     (\<not> wrongEvent scanEvent payload \<and> \<not> expiredAt P now payload \<longrightarrow>
        snd (validate P now d (Some payload) scanEvent scanner loc)
          = Rejected ''Already marked as attended'')"
  using assms by (simp add: validate_def Let_def)

text \<open>
  C3 (amended). Scans that run one after another, none overlapping. Take a
  registration in status \<open>registered\<close> and a payload that finds it, whose required fields
  are present and whose signature verifies; let the student's and the event's documents
  exist, the scanner's event (if given) be the payload's, and the payload not be expired.
  Then the first validation answers \<^verbatim>\<open>valid: true\<close> and the registration is \<open>attended\<close>.
  Every later validation of the payload leaves the database as it is and never answers
  \<^verbatim>\<open>valid: true\<close>: at a scanner of another event its answer is the wrong-event
  rejection, else after expiry the expiry rejection, else the rejection of an attended
  registration (\<open>duplicate\<close>). Nothing is claimed for scans that overlap.
\<close>

theorem first_scan_valid_then_duplicate:
  assumes "missingFields payload = []" and "validateQRSignature P payload"
    and "find (matchesPayload payload) (db.registrations d) = Some reg"
    and "registration.status reg = registered" and "populated d reg"
    and "\<not> wrongEvent scanEvent payload" and "\<not> expiredAt P now payload"
  shows "\<exists>d1 reg' entry.
     validate P now d (Some payload) scanEvent scanner loc = (d1, Accepted reg' entry) \<and>
     registration.status reg' = attended \<and>
     find (matchesPayload payload) (db.registrations d1) = Some reg' \<and>
     (\<forall>now' scanEvent' scanner' loc'.
        fst (validate P now' d1 (Some payload) scanEvent' scanner' loc') = d1 \<and>
        (\<forall>r e. snd (validate P now' d1 (Some payload) scanEvent' scanner' loc') \<noteq> Accepted r e) \<and>
        (wrongEvent scanEvent' payload \<longrightarrow>
         snd (validate P now' d1 (Some payload) scanEvent' scanner' loc')
           = Rejected ''QR code is for a different event'') \<and>
        (\<not> wrongEvent scanEvent' payload \<and> expiredAt P now' payload \<longrightarrow>
         snd (validate P now' d1 (Some payload) scanEvent' scanner' loc')
           = Rejected ''QR code has expired'') \<and>
        (\<not> wrongEvent scanEvent' payload \<and> \<not> expiredAt P now' payload \<longrightarrow>
         snd (validate P now' d1 (Some payload) scanEvent' scanner' loc')
           = Rejected ''Already marked as attended''))"
proof -
  from assms obtain entry l where v:
    "validate P now d (Some payload) scanEvent scanner loc =
       (d\<lparr>db.registrations :=
            replace_first (matchesPayload payload)
              (reg\<lparr>registration.status := attended, scanLogs := scanLogs reg @ [entry]\<rparr>)
              (db.registrations d),
          scanlogs := scanlogs d @ [l]\<rparr>,
        Accepted (reg\<lparr>registration.status := attended, scanLogs := scanLogs reg @ [entry]\<rparr>) entry)"
    using validate_commit [of payload P scanEvent d reg now scanner loc] by auto
  let ?reg' = "reg\<lparr>registration.status := attended, scanLogs := scanLogs reg @ [entry]\<rparr>"
  let ?d1 = "d\<lparr>db.registrations :=
            replace_first (matchesPayload payload) ?reg' (db.registrations d),
          scanlogs := scanlogs d @ [l]\<rparr>"
  have m: "matchesPayload payload ?reg'"
    using find_Some_holds [OF assms(3)] by (simp add: matchesPayload_update)
  have f: "find (matchesPayload payload) (db.registrations ?d1) = Some ?reg'"
    using find_replace_first [OF assms(3) m] by simp
  have p: "populated ?d1 ?reg'"
    using assms(5) by (simp add: populated_def)
  have s: "registration.status ?reg' = attended" by simp
  note later = validate_later [OF assms(1,2) f s p]
  from v s f later show ?thesis by blast
qed


text \<open>
  Witness for C3: the sample credential scanned on 15 January.
\<close>

theorem first_scan_valid_then_duplicate_witness:
  "\<exists>d1 reg' entry.
     validate sample_platform jan_15 sample_db_registered (Some sample_payload)
       Undefined Undefined Undefined = (d1, Accepted reg' entry) \<and>
     registration.status reg' = attended \<and>
     find (matchesPayload sample_payload) (db.registrations d1) = Some reg' \<and>
     (\<forall>now' scanEvent' scanner' loc'.
        fst (validate sample_platform now' d1 (Some sample_payload) scanEvent' scanner' loc') = d1 \<and>
        (\<forall>r e. snd (validate sample_platform now' d1 (Some sample_payload) scanEvent' scanner' loc')
                 \<noteq> Accepted r e) \<and>
        (wrongEvent scanEvent' sample_payload \<longrightarrow>
         snd (validate sample_platform now' d1 (Some sample_payload) scanEvent' scanner' loc')
           = Rejected ''QR code is for a different event'') \<and>
        (\<not> wrongEvent scanEvent' sample_payload \<and> expiredAt sample_platform now' sample_payload \<longrightarrow>
         snd (validate sample_platform now' d1 (Some sample_payload) scanEvent' scanner' loc')
           = Rejected ''QR code has expired'') \<and>
        (\<not> wrongEvent scanEvent' sample_payload \<and> \<not> expiredAt sample_platform now' sample_payload \<longrightarrow>
         snd (validate sample_platform now' d1 (Some sample_payload) scanEvent' scanner' loc')
           = Rejected ''Already marked as attended''))"
proof -
  have "registration.status sample_registration = registered"
    by (simp add: sample_registration_def)
  from first_scan_valid_then_duplicate
    [OF sample_missingFields sample_payload_valid sample_find this sample_populated
      not_wrongEvent_Undefined sample_fresh_jan_15]
  show ?thesis .
qed

lemma gate_entries:
  "scan_entry_of gate_1_scan = gate_1_entry" "scan_entry_of gate_2_scan = gate_2_entry"
  by (simp_all add: scan_entry_of_def gate_1_scan_def gate_2_scan_def gate_1_entry_def
      gate_2_entry_def jan_15_def)

lemma gate_scan_fields:
  "s_qrData gate_1_scan = Some sample_payload" "s_qrData gate_2_scan = Some sample_payload"
  "s_eventId gate_1_scan = Undefined" "s_eventId gate_2_scan = Undefined"
  "s_now gate_1_scan = jan_15" "s_now gate_2_scan = jan_15"
  by (simp_all add: gate_1_scan_def gate_2_scan_def)

lemma sample_refs:
  "events sample_db_registered hackathon = Some (sample_event\<lparr>currentParticipants := 1\<rparr>)"
  "users sample_db_registered asha = Some \<lparr>name = ''Asha''\<rparr>"
  "registration.eventId sample_registration = hackathon"
  "registration.userId sample_registration = asha"
  "registration.status sample_registration = registered"
  by (simp_all add: sample_db_registered_def sample_registration_def asha_def ravi_def)

lemma overlap_lookups:
  "run_scans sample_platform [gate_1_scan, gate_2_scan] [0, 1]
     (sample_db_registered, [AtLookup, AtLookup])
   = (sample_db_registered,
      [AtStatusSave sample_registration (Some hackathon) (Some asha),
       AtStatusSave sample_registration (Some hackathon) (Some asha)])"
  by (simp add: gate_scan_fields sample_missingFields sample_payload_valid
      not_wrongEvent_Undefined sample_find sample_fresh_jan_15 sample_refs)

lemma matches_sample:
  "matchesPayload sample_payload (sample_registration\<lparr>registration.status := st, scanLogs := l\<rparr>)"
  using find_Some_holds [OF sample_find] by (simp add: matchesPayload_update)

lemma overlap_status_saves:
  "run_scans sample_platform [gate_1_scan, gate_2_scan] [0, 1]
     (sample_db_registered,
      [AtStatusSave sample_registration (Some hackathon) (Some asha),
       AtStatusSave sample_registration (Some hackathon) (Some asha)])
   = (sample_db_registered
        \<lparr>db.registrations :=
           [sample_registration\<lparr>registration.status := attended,
              scanLogs := [gate_1_entry, gate_2_entry]\<rparr>]\<rparr>,
      [AtScanLogSave sample_registration (Some hackathon) (Some asha),
       AtScanLogSave sample_registration (Some hackathon) (Some asha)])"
proof -
  have r: "db.registrations sample_db_registered = [sample_registration]"
    by (simp add: sample_db_registered_def)
  have l: "scanLogs sample_registration = []"
    by (simp add: sample_registration_def)
  have m: "matchesPayload sample_payload sample_registration"
    by (rule find_Some_holds [OF sample_find])
  show ?thesis
    by (simp add: gate_scan_fields gate_entries r l m matches_sample)
qed

lemma overlap_log_saves:
  "run_scans sample_platform [gate_1_scan, gate_2_scan] [0, 1]
     (sample_db_registered
        \<lparr>db.registrations :=
           [sample_registration\<lparr>registration.status := attended,
              scanLogs := [gate_1_entry, gate_2_entry]\<rparr>]\<rparr>,
      [AtScanLogSave sample_registration (Some hackathon) (Some asha),
       AtScanLogSave sample_registration (Some hackathon) (Some asha)])
   = (sample_db_registered
        \<lparr>db.registrations :=
           [sample_registration\<lparr>registration.status := attended,
              scanLogs := [gate_1_entry, gate_2_entry]\<rparr>],
         scanlogs :=
           [scan_entry.extend gate_1_entry
              \<lparr>scan_log.registrationId = ''0123456789abcdef0123456789abcdef'',
               scan_log.eventId = Some hackathon, scan_log.userId = Some asha\<rparr>,
            scan_entry.extend gate_2_entry
              \<lparr>scan_log.registrationId = ''0123456789abcdef0123456789abcdef'',
               scan_log.eventId = Some hackathon, scan_log.userId = Some asha\<rparr>]\<rparr>,
      [Answered (Accepted
         (sample_registration\<lparr>registration.status := attended, scanLogs := [gate_1_entry]\<rparr>)
         gate_1_entry),
       Answered (Accepted
         (sample_registration\<lparr>registration.status := attended, scanLogs := [gate_2_entry]\<rparr>)
         gate_2_entry)])"
proof -
  have l: "scanLogs sample_registration = []"
    "registration.registrationId sample_registration = ''0123456789abcdef0123456789abcdef''"
    by (simp_all add: sample_registration_def)
  have s: "scanlogs sample_db_registered = []"
    by (simp add: sample_db_registered_def)
  show ?thesis
    by (simp add: gate_entries l s Let_def)
qed

lemma run_scans_append:
  "run_scans P ss (xs @ ys) st = run_scans P ss ys (run_scans P ss xs st)"
proof (induction xs arbitrary: st)
  case Nil
  show ?case by (cases st) simp
next
  case (Cons i xs)
  obtain d sts where s: "st = (d, sts)" by (cases st) auto
  show ?case
    unfolding s using Cons.IH by (simp split: prod.splits)
qed

text \<open>
  Counterexample to C3 as stated, in two parts. Asha's registration is
  \<open>registered\<close>, and the first validation of its credential, on 2 February, is rejected as
  expired. And two scans of the credential on 15 January that take their steps alternately
  both read the status \<open>registered\<close> and both answer \<^verbatim>\<open>valid: true\<close>: the transition
  succeeds twice.
\<close>

theorem expired_first_scan_and_overlapping_scans:
  "registration.status sample_registration = registered \<and>
   qrPayload sample_registration = sample_payload \<and>
   find (matchesPayload sample_payload) (db.registrations sample_db_registered)
     = Some sample_registration \<and>
   validate sample_platform feb_2 sample_db_registered (Some sample_payload)
     Undefined Undefined Undefined
     = (sample_db_registered, Rejected ''QR code has expired'') \<and>
   snd (run_scans sample_platform [gate_1_scan, gate_2_scan] [0, 1, 0, 1, 0, 1]
          (sample_db_registered, [AtLookup, AtLookup]))
     = [Answered (Accepted
          (sample_registration\<lparr>registration.status := attended, scanLogs := [gate_1_entry]\<rparr>)
          gate_1_entry),
        Answered (Accepted
          (sample_registration\<lparr>registration.status := attended, scanLogs := [gate_2_entry]\<rparr>)
          gate_2_entry)]"
proof -
  have "snd (run_scans sample_platform [gate_1_scan, gate_2_scan] ([0, 1] @ [0, 1] @ [0, 1])
          (sample_db_registered, [AtLookup, AtLookup]))
     = [Answered (Accepted
          (sample_registration\<lparr>registration.status := attended, scanLogs := [gate_1_entry]\<rparr>)
          gate_1_entry),
        Answered (Accepted
          (sample_registration\<lparr>registration.status := attended, scanLogs := [gate_2_entry]\<rparr>)
          gate_2_entry)]"
    by (simp only: run_scans_append overlap_lookups overlap_status_saves overlap_log_saves snd_conv)
  then show ?thesis
    by (simp add: sample_find sample_validate_feb_2) (simp add: sample_registration_def)
qed

subsection \<open>Answers other than valid\<close>







end
